theory Spec2Isabelle
  imports Main "HOL-Library.Multiset"
begin

section \<open>Python values and errors\<close>

text \<open>
  The exceptions that the two modules can raise. All of them are subclasses of Python's
  \<open>Exception\<close>: \<open>ReadTimeout\<close>, \<open>ConnectionError\<close> and \<open>HTTPError\<close> come from
  the HTTP client (\<open>requests.exceptions\<close>), \<open>EnvError\<close> from \<open>environs\<close>,
  \<open>ValueError\<close> and \<open>TypeError\<close> from the builtins \<open>int\<close> and \<open>range\<close>.
\<close>

datatype error =
    ReadTimeout
  | ConnectionError
  | HTTPError
  | EnvError
  | ValueError
  | TypeError

text \<open>
  A spreadsheet cell as \<open>watch.get(key)\<close> returns it: text, a whole number, or \<open>None\<close>
  when the column is missing (cells holding a fraction are not modelled). Strings are
  byte strings (UTF-8); every character the code inspects is ASCII.
\<close>

datatype cell = StrV string | IntV int | NoneV

section \<open>The builtins str and int\<close>

text \<open>
  \<open>str(x)\<close>: text is itself, a whole number is its decimal numeral, \<open>None\<close> is
  "None". (The whole numbers of a spreadsheet are read from doubles: they have far
  fewer digits than the 4300 at which \<open>str\<close> of a number would raise.)
\<close>

fun str_nat :: "nat \<Rightarrow> string" where
  "str_nat n =
     (if n < 10 then [''0123456789'' ! n]
      else str_nat (n div 10) @ [''0123456789'' ! (n mod 10)])"

declare str_nat.simps [simp del]

definition str_int :: "int \<Rightarrow> string" where
  "str_int i = (if i < 0 then CHR ''-'' # str_nat (nat (- i)) else str_nat (nat i))"

fun py_str :: "cell \<Rightarrow> string" where
  "py_str (StrV s) = s"
| "py_str (IntV i) = str_int i"
| "py_str NoneV = ''None''"

text \<open>
  \<open>int(x)\<close>: a whole number is itself; \<open>None\<close> raises \<open>TypeError\<close>; text is parsed
  as a base-10 literal. Text that is not all ASCII is first brought to ASCII, code
  point by code point: an ASCII character stays, white space becomes a space, a
  decimal digit of any script becomes its ASCII digit, and anything else becomes a
  question mark, which ends the text. Then ASCII white space (tab, line feed, vertical
  tab, form feed, carriage return, space) is stripped from both ends, one sign may
  follow, then come digits, every two of which may be separated by one underscore. A
  literal of more than 4300 digits is refused (the interpreter's limit, as it is set
  when the program does not change it). Anything that is not such a literal raises
  \<open>ValueError\<close>.

  Python strings are sequences of code points; the strings of the model are their
  UTF-8 bytes. A lead byte tells how many bytes follow it; bytes that are the UTF-8
  form of no string decode to the replacement character.
\<close>

definition utf8_extra :: "nat \<Rightarrow> nat" where
  "utf8_extra n = (if n < 0xC0 then 0 else if n < 0xE0 then 1 else if n < 0xF0 then 2 else 3)"

definition utf8_lead :: "nat \<Rightarrow> nat" where
  "utf8_lead n =
     (if n < 0x80 then n
      else if n < 0xC0 then 0xFFFD
      else if n < 0xE0 then n mod 0x20
      else if n < 0xF0 then n mod 0x10
      else n mod 8)"

fun utf8_decode :: "string \<Rightarrow> nat list" where
  "utf8_decode [] = []"
| "utf8_decode (b # bs) =
     (if length bs < utf8_extra (of_char b) then [0xFFFD]
      else foldl (\<lambda>a c. a * 64 + of_char c mod 64) (utf8_lead (of_char b))
             (take (utf8_extra (of_char b)) bs)
           # utf8_decode (drop (utf8_extra (of_char b)) bs))"

text \<open>
  The white space beyond ASCII, and the zero digits of the scripts beyond ASCII (the
  other nine digits of a script follow its zero), as the interpreter's tables
  (Unicode 14) have them.
\<close>

definition unicode_space :: "nat \<Rightarrow> bool" where
  "unicode_space cp =
     (cp \<in> set [0x85, 0xA0, 0x1680, 0x2000, 0x2001, 0x2002, 0x2003, 0x2004, 0x2005,
                 0x2006, 0x2007, 0x2008, 0x2009, 0x200A, 0x2028, 0x2029, 0x202F,
                 0x205F, 0x3000])"

definition decimal_zeros :: "nat list" where
  "decimal_zeros =
     [0x660, 0x6F0, 0x7C0, 0x966, 0x9E6, 0xA66, 0xAE6, 0xB66, 0xBE6, 0xC66, 0xCE6, 0xD66,
      0xDE6, 0xE50, 0xED0, 0xF20, 0x1040, 0x1090, 0x17E0, 0x1810, 0x1946, 0x19D0, 0x1A80,
      0x1A90, 0x1B50, 0x1BB0, 0x1C40, 0x1C50, 0xA620, 0xA8D0, 0xA900, 0xA9D0, 0xA9F0,
      0xAA50, 0xABF0, 0xFF10, 0x104A0, 0x10D30, 0x11066, 0x110F0, 0x11136, 0x111D0,
      0x112F0, 0x11450, 0x114D0, 0x11650, 0x116C0, 0x11730, 0x118E0, 0x11950, 0x11C50,
      0x11D50, 0x11DA0, 0x16A60, 0x16AC0, 0x16B50, 0x1D7CE, 0x1D7D8, 0x1D7E2, 0x1D7EC,
      0x1D7F6, 0x1E140, 0x1E2F0, 0x1E950, 0x1FBF0]"

definition unicode_decimal :: "nat \<Rightarrow> nat option" where
  "unicode_decimal cp =
     (case find (\<lambda>z. z \<le> cp \<and> cp < z + 10) decimal_zeros of
        None \<Rightarrow> None
      | Some z \<Rightarrow> Some (cp - z))"

fun to_ascii :: "nat list \<Rightarrow> string" where
  "to_ascii [] = []"
| "to_ascii (cp # cps) =
     (if cp < 127 then char_of cp # to_ascii cps
      else if unicode_space cp then CHR '' '' # to_ascii cps
      else (case unicode_decimal cp of
              None \<Rightarrow> ''?''
            | Some d \<Rightarrow> (''0123456789'' ! d) # to_ascii cps))"

definition decimal_and_space_to_ascii :: "string \<Rightarrow> string" where
  "decimal_and_space_to_ascii s =
     (if list_all (\<lambda>c. of_char c < (128 :: nat)) s then s else to_ascii (utf8_decode s))"

definition is_space :: "char \<Rightarrow> bool" where
  "is_space c = (c \<in> set [CHR 0x09, CHR 0x0A, CHR 0x0B, CHR 0x0C, CHR 0x0D, CHR 0x20])"

definition is_digit :: "char \<Rightarrow> bool" where
  "is_digit c = (c \<in> set ''0123456789'')"

definition digit_val :: "char \<Rightarrow> nat" where
  "digit_val c = of_char c - 48"

definition strip :: "string \<Rightarrow> string" where
  "strip s = rev (dropWhile is_space (rev (dropWhile is_space s)))"

fun int_digits :: "nat \<Rightarrow> string \<Rightarrow> nat option" where
  "int_digits acc [] = Some acc"
| "int_digits acc [c] =
     (if is_digit c then Some (10 * acc + digit_val c) else None)"
| "int_digits acc (c # d # cs) =
     (if c = CHR ''_''
      then (if is_digit d then int_digits (10 * acc + digit_val d) cs else None)
      else if is_digit c then int_digits (10 * acc + digit_val c) (d # cs)
      else None)"

definition int_literal :: "string \<Rightarrow> nat option" where
  "int_literal s =
     (if 4300 < length (filter is_digit s) then None
      else case s of
             [] \<Rightarrow> None
           | c # cs \<Rightarrow> if is_digit c then int_digits (digit_val c) cs else None)"

definition int_of_str :: "string \<Rightarrow> error + int" where
  "int_of_str s =
     (case strip (decimal_and_space_to_ascii s) of
        c # cs \<Rightarrow>
          (if c = CHR ''-'' then
             (case int_literal cs of None \<Rightarrow> Inl ValueError | Some n \<Rightarrow> Inr (- int n))
           else if c = CHR ''+'' then
             (case int_literal cs of None \<Rightarrow> Inl ValueError | Some n \<Rightarrow> Inr (int n))
           else
             (case int_literal (c # cs) of None \<Rightarrow> Inl ValueError | Some n \<Rightarrow> Inr (int n)))
      | [] \<Rightarrow> Inl ValueError)"

fun py_int :: "cell \<Rightarrow> error + int" where
  "py_int (StrV s) = int_of_str s"
| "py_int (IntV i) = Inr i"
| "py_int NoneV = Inl TypeError"

section \<open>seller.py: price\_conversion and divide\<close>

text \<open>
  \<open>price.split(".")\<close>: Python's \<open>str.split\<close> with a separator never returns an empty
  list, so the result is a first piece and the list of the remaining pieces;
  \<open>[0]\<close> is the first piece.
\<close>

fun split :: "char \<Rightarrow> string \<Rightarrow> string \<times> string list" where
  "split sep [] = ([], [])"
| "split sep (c # cs) =
     (let (piece, pieces) = split sep cs
      in if c = sep then ([], piece # pieces) else (c # piece, pieces))"

text \<open>\<open>re.sub("[^0-9]", "", s)\<close> deletes every character outside the class \<open>0-9\<close>.\<close>

definition re_sub_non_digits :: "string \<Rightarrow> string" where
  "re_sub_non_digits s = filter (\<lambda>c. c \<in> set ''0123456789'') s"

definition price_conversion :: "string \<Rightarrow> string" where
  "price_conversion price = re_sub_non_digits (fst (split (CHR ''.'') price))"

text \<open>
  \<open>divide\<close> is a generator over \<open>range(0, len(lst), n)\<close>; every caller consumes it with
  \<open>list(...)\<close>, so the model is the list of the slices \<open>lst[i : i + n]\<close>. \<open>range\<close>
  raises \<open>ValueError\<close> for a zero step and is empty for a negative step over \<open>0..len\<close>.
  The function is \<open>divide_list\<close> here, \<open>divide\<close> being the division of HOL.
\<close>

function divide_from :: "'a list \<Rightarrow> nat \<Rightarrow> nat \<Rightarrow> 'a list list" where
  "divide_from lst n i =
     (if 0 < n \<and> i < length lst
      then take n (drop i lst) # divide_from lst n (i + n)
      else [])"
  by pat_completeness auto
termination
  by (relation "measure (\<lambda>(lst, n, i). length lst - i)") auto

declare divide_from.simps [simp del]

definition divide_list :: "'a list \<Rightarrow> int \<Rightarrow> error + 'a list list" where
  "divide_list lst n =
     (if n = 0 then Inl ValueError
      else if n < 0 then Inr []
      else Inr (divide_from lst (nat n) 0))"

section \<open>Inventory rows and update records\<close>

text \<open>
  A row of the feed is a dictionary; the code reads three keys of it, transliterated
  here: \<open>kod\<close> (the product code), \<open>kolichestvo\<close> (the quantity) and \<open>tsena\<close> (the
  price). Code and quantity go through \<open>str\<close> before use, so they are cells of any
  kind; the price is handed to \<open>price_conversion(price: str)\<close> as it is.
\<close>

record row =
  kod :: cell
  kolichestvo :: cell
  tsena :: string

text \<open>
  The update records are the dictionaries the builders append. Keys that two records
  share, or that clash with a constant of HOL, carry a prefix: \<open>price_offer_id\<close> is
  the key \<open>offer_id\<close> of a seller price, \<open>item_count\<close> and \<open>item_type\<close> are the keys
  \<open>count\<close> and \<open>type\<close>, \<open>price_id\<close> is \<open>id\<close>, \<open>price_value\<close> is \<open>price\<close> and
  \<open>amount\<close> is \<open>value\<close> of a market price.
\<close>

record seller_stock =
  offer_id :: string
  stock :: int

record seller_price =
  auto_action_enabled :: string
  currency_code :: string
  price_offer_id :: string
  old_price :: string
  price :: string

record market_item =
  item_count :: int
  item_type :: string
  updatedAt :: string

record market_stock =
  sku :: string
  warehouseId :: string
  items :: "market_item list"

record market_value =
  amount :: int
  currencyId :: string

record market_price =
  price_id :: string
  price_value :: market_value

section \<open>create\_stocks\<close>

text \<open>
  The first loop of \<open>create_stocks\<close> (seller.py lines 207-217, market.py lines 155-177).
  The two modules differ only in the dictionary they append, which is the parameter
  \<open>mk\<close>. The list \<open>offer_ids\<close> is mutated by \<open>offer_ids.remove\<close>, so it is threaded
  through and returned with the records. A failing \<open>int\<close> ends the call.
\<close>

fun create_stocks_loop ::
  "(string \<Rightarrow> int \<Rightarrow> 'r) \<Rightarrow> row list \<Rightarrow> string list \<Rightarrow> 'r list \<Rightarrow> error + ('r list \<times> string list)"
where
  "create_stocks_loop mk [] offer_ids stocks = Inr (stocks, offer_ids)"
| "create_stocks_loop mk (watch # watch_remnants) offer_ids stocks =
     (if py_str (kod watch) \<in> set offer_ids then
        (let count = py_str (kolichestvo watch) in
         case (if count = ''>10'' then Inr 100
               else if count = ''1'' then Inr 0
               else py_int (kolichestvo watch)) of
           Inl e \<Rightarrow> Inl e
         | Inr stock' \<Rightarrow>
             create_stocks_loop mk watch_remnants
               (remove1 (py_str (kod watch)) offer_ids)
               (stocks @ [mk (py_str (kod watch)) stock']))
      else create_stocks_loop mk watch_remnants offer_ids stocks)"

text \<open>The second loop appends a zero record for every offer id still in the list.\<close>

definition create_stocks ::
  "(string \<Rightarrow> int \<Rightarrow> 'r) \<Rightarrow> row list \<Rightarrow> string list \<Rightarrow> error + ('r list \<times> string list)"
where
  "create_stocks mk watch_remnants offer_ids =
     (case create_stocks_loop mk watch_remnants offer_ids [] of
        Inl e \<Rightarrow> Inl e
      | Inr (stocks, offer_ids') \<Rightarrow>
          Inr (stocks @ map (\<lambda>offer_id. mk offer_id 0) offer_ids', offer_ids'))"

definition seller_create_stocks ::
  "row list \<Rightarrow> string list \<Rightarrow> error + (seller_stock list \<times> string list)"
where
  "seller_create_stocks watch_remnants offer_ids =
     create_stocks (\<lambda>i n. \<lparr>offer_id = i, stock = n\<rparr>) watch_remnants offer_ids"

text \<open>
  market.py reads the clock once per call (\<open>datetime.utcnow()\<close>); the formatted time
  is the parameter \<open>date\<close>.
\<close>

definition market_create_stocks ::
  "string \<Rightarrow> row list \<Rightarrow> string list \<Rightarrow> string \<Rightarrow> error + (market_stock list \<times> string list)"
where
  "market_create_stocks date watch_remnants offer_ids warehouse_id =
     create_stocks
       (\<lambda>i n. \<lparr>sku = i, warehouseId = warehouse_id,
                 items = [\<lparr>item_count = n, item_type = ''FIT'', updatedAt = date\<rparr>]\<rparr>)
       watch_remnants offer_ids"

section \<open>create\_prices\<close>

text \<open>
  Neither \<open>create_prices\<close> writes to \<open>offer_ids\<close>; the list is returned with the
  records, as for \<open>create_stocks\<close>, so that its final state can be stated.
\<close>

fun seller_create_prices_loop ::
  "row list \<Rightarrow> string list \<Rightarrow> seller_price list \<Rightarrow> seller_price list \<times> string list"
where
  "seller_create_prices_loop [] offer_ids prices = (prices, offer_ids)"
| "seller_create_prices_loop (watch # watch_remnants) offer_ids prices =
     (if py_str (kod watch) \<in> set offer_ids then
        seller_create_prices_loop watch_remnants offer_ids
          (prices @ [\<lparr>auto_action_enabled = ''UNKNOWN'', currency_code = ''RUB'',
                      price_offer_id = py_str (kod watch), old_price = ''0'',
                      price = price_conversion (tsena watch)\<rparr>])
      else seller_create_prices_loop watch_remnants offer_ids prices)"

definition seller_create_prices ::
  "row list \<Rightarrow> string list \<Rightarrow> seller_price list \<times> string list"
where
  "seller_create_prices watch_remnants offer_ids =
     seller_create_prices_loop watch_remnants offer_ids []"

fun market_create_prices_loop ::
  "row list \<Rightarrow> string list \<Rightarrow> market_price list \<Rightarrow> error + (market_price list \<times> string list)"
where
  "market_create_prices_loop [] offer_ids prices = Inr (prices, offer_ids)"
| "market_create_prices_loop (watch # watch_remnants) offer_ids prices =
     (if py_str (kod watch) \<in> set offer_ids then
        (case py_int (StrV (price_conversion (tsena watch))) of
           Inl e \<Rightarrow> Inl e
         | Inr v \<Rightarrow>
             market_create_prices_loop watch_remnants offer_ids
               (prices @ [\<lparr>price_id = py_str (kod watch),
                           price_value = \<lparr>amount = v, currencyId = ''RUR''\<rparr>\<rparr>]))
      else market_create_prices_loop watch_remnants offer_ids prices)"

definition market_create_prices ::
  "row list \<Rightarrow> string list \<Rightarrow> error + (market_price list \<times> string list)"
where
  "market_create_prices watch_remnants offer_ids =
     market_create_prices_loop watch_remnants offer_ids []"

section \<open>The reconciliation as the specification words it\<close>

text \<open>The code of a row, \<open>str(watch.get(...))\<close> of its code cell.\<close>

definition code :: "row \<Rightarrow> string" where
  "code watch = py_str (kod watch)"

text \<open>
  Quantity resolution: the sentinel ">10" is 100, the sentinel "1" is 0, anything else
  is parsed as an integer.
\<close>

definition resolve_quantity :: "cell \<Rightarrow> error + int" where
  "resolve_quantity q =
     (if py_str q = ''>10'' then Inr 100
      else if py_str q = ''1'' then Inr 0
      else py_int q)"

text \<open>The resolved count of a row whose quantity resolves (0 stands in when it does not).\<close>

definition stock_of :: "row \<Rightarrow> int" where
  "stock_of watch = (case resolve_quantity (kolichestvo watch) of Inr n \<Rightarrow> n | Inl e \<Rightarrow> 0)"

text \<open>First match wins: of the rows that share a code only the first one counts.\<close>

fun first_rows :: "row list \<Rightarrow> row list" where
  "first_rows [] = []"
| "first_rows (watch # watch_remnants) =
     watch # filter (\<lambda>other. code other \<noteq> code watch) (first_rows watch_remnants)"

text \<open>
  The matched rows, in inventory order, and the offer ids that no row matches, in the
  order of the offer-id list.
\<close>

definition matched_rows :: "row list \<Rightarrow> string list \<Rightarrow> row list" where
  "matched_rows watch_remnants offer_ids =
     filter (\<lambda>watch. code watch \<in> set offer_ids) (first_rows watch_remnants)"

definition unmatched_ids :: "row list \<Rightarrow> string list \<Rightarrow> string list" where
  "unmatched_ids watch_remnants offer_ids =
     filter (\<lambda>i. i \<notin> code ` set watch_remnants) offer_ids"

text \<open>
  The quantity mapping, for the record of offer id \<open>k\<close> with count \<open>n\<close>: with no row of
  that code the count is 0; otherwise the first row of that code decides: ">10" gives
  100, "1" gives 0, any other quantity gives its integer parse.
\<close>

definition quantity_mapped :: "row list \<Rightarrow> string \<Rightarrow> int \<Rightarrow> bool" where
  "quantity_mapped watch_remnants k n =
     (case find (\<lambda>watch. code watch = k) watch_remnants of
        None \<Rightarrow> n = 0
      | Some watch \<Rightarrow>
          (if py_str (kolichestvo watch) = ''>10'' then n = 100
           else if py_str (kolichestvo watch) = ''1'' then n = 0
           else py_int (kolichestvo watch) = Inr n))"

text \<open>The number that a string of decimal digits denotes.\<close>

definition decimal :: "string \<Rightarrow> nat" where
  "decimal s = foldl (\<lambda>a c. 10 * a + digit_val c) 0 s"

section \<open>The entry points\<close>

text \<open>
  What a run of \<open>main\<close> meets outside the program: the environment variables, the
  outcome of \<open>get_offer_ids\<close> for an account (the whole paginated fetch, its list or
  the exception it raises), the outcome of \<open>download_stock\<close>, the outcome of each
  update request (\<open>None\<close> when it succeeds), numbered by the requests made before it,
  and the clock.
\<close>

record world =
  environ :: "string \<Rightarrow> string option"
  fetched :: "string \<Rightarrow> string \<Rightarrow> error + string list"
  feed :: "error + row list"
  reply :: "nat \<Rightarrow> error option"
  utcnow :: "nat \<Rightarrow> string"

text \<open>
  What a run does to the outside: the update requests it sends, with the account and
  the batch, and the lines it prints. The three \<open>except\<close> clauses print the timeout
  text, the error with the connection text, and the error with \<open>ERROR_2\<close>.
\<close>

datatype message = TimeoutMessage | ConnectionMessage error | GenericMessage error

datatype ('s, 'p) event =
    UpdateStocks string "'s list"
  | UpdatePrice string "'p list"
  | Print message

text \<open>A run either returns or lets an exception out; either way it leaves a trace.\<close>

datatype ('s, 'p) outcome =
    Returned "('s, 'p) event list"
  | Propagated error "('s, 'p) event list"

text \<open>
  The clauses \<open>except ReadTimeout\<close>, \<open>except ConnectionError\<close>, \<open>except Exception\<close>, in
  this order.
\<close>

fun except_message :: "error \<Rightarrow> message" where
  "except_message ReadTimeout = TimeoutMessage"
| "except_message ConnectionError = ConnectionMessage ConnectionError"
| "except_message e = GenericMessage e"

text \<open>
  \<open>for some in list(divide(...)): update(some, ...)\<close>: the batches are sent one by
  one; the first request that raises ends the loop.
\<close>

fun update_all ::
  "('b \<Rightarrow> 'e) \<Rightarrow> (nat \<Rightarrow> error option) \<Rightarrow> 'b list \<Rightarrow> 'e list \<Rightarrow> error option \<times> 'e list"
where
  "update_all request answers [] trace = (None, trace)"
| "update_all request answers (some # batches) trace =
     (case answers (length trace) of
        Some e \<Rightarrow> (Some e, trace @ [request some])
      | None \<Rightarrow> update_all request answers batches (trace @ [request some]))"

text \<open>
  The \<open>try\<close> block of seller.py's \<open>main\<close> (lines 379-386). \<open>create_stocks\<close> is given
  the list \<open>offer_ids\<close> itself, and \<open>create_prices\<close> then reads the same list, as
  \<open>create_stocks\<close> left it. The result holds the locals \<open>stocks\<close> and \<open>prices\<close>.
\<close>

definition seller_main_try ::
  "world \<Rightarrow> string \<Rightarrow> string \<Rightarrow>
   (error + seller_stock list \<times> seller_price list) \<times> (seller_stock, seller_price) event list"
where
  "seller_main_try w client_id seller_token =
     (case fetched w client_id seller_token of
        Inl e \<Rightarrow> (Inl e, [])
      | Inr offer_ids \<Rightarrow>
     (case feed w of
        Inl e \<Rightarrow> (Inl e, [])
      | Inr watch_remnants \<Rightarrow>
     (case seller_create_stocks watch_remnants offer_ids of
        Inl e \<Rightarrow> (Inl e, [])
      | Inr (stocks, offer_ids') \<Rightarrow>
     (case divide_list stocks 100 of
        Inl e \<Rightarrow> (Inl e, [])
      | Inr stock_batches \<Rightarrow>
     (case update_all (UpdateStocks client_id) (reply w) stock_batches [] of
        (Some e, trace) \<Rightarrow> (Inl e, trace)
      | (None, trace) \<Rightarrow>
     (case seller_create_prices watch_remnants offer_ids' of
        (prices, offer_ids'') \<Rightarrow>
     (case divide_list prices 900 of
        Inl e \<Rightarrow> (Inl e, trace)
      | Inr price_batches \<Rightarrow>
     (case update_all (UpdatePrice client_id) (reply w) price_batches trace of
        (Some e, trace') \<Rightarrow> (Inl e, trace')
      | (None, trace') \<Rightarrow> (Inr (stocks, prices), trace')))))))))"

text \<open>
  seller.py's \<open>main\<close>: the two \<open>env.str\<close> calls stand before the \<open>try\<close>, so a missing
  variable (\<open>EnvError\<close>) leaves \<open>main\<close>; an exception of the \<open>try\<close> block is printed.
\<close>

definition seller_main :: "world \<Rightarrow> (seller_stock, seller_price) outcome" where
  "seller_main w =
     (case environ w ''SELLER_TOKEN'' of
        None \<Rightarrow> Propagated EnvError []
      | Some seller_token \<Rightarrow>
     (case environ w ''CLIENT_ID'' of
        None \<Rightarrow> Propagated EnvError []
      | Some client_id \<Rightarrow>
     (case seller_main_try w client_id seller_token of
        (Inl e, trace) \<Rightarrow> Returned (trace @ [Print (except_message e)])
      | (Inr locals, trace) \<Rightarrow> Returned trace)))"

text \<open>
  market.py's \<open>upload_prices\<close> is declared \<open>async def\<close>: a call runs nothing and
  returns a coroutine object, which holds the body. Only awaiting it (or an event loop)
  runs the body, here from the trace so far.
\<close>

datatype 'a coroutine = Coroutine 'a

definition await :: "'a coroutine \<Rightarrow> 'a" where
  "await c = (case c of Coroutine body \<Rightarrow> body)"

definition market_upload_prices ::
  "world \<Rightarrow> row list \<Rightarrow> string \<Rightarrow> string \<Rightarrow>
   ((market_stock, market_price) event list \<Rightarrow>
      (error + market_price list) \<times> (market_stock, market_price) event list) coroutine"
where
  "market_upload_prices w watch_remnants campaign_id market_token =
     Coroutine (\<lambda>trace.
       case fetched w campaign_id market_token of
         Inl e \<Rightarrow> (Inl e, trace)
       | Inr offer_ids \<Rightarrow>
      (case market_create_prices watch_remnants offer_ids of
         Inl e \<Rightarrow> (Inl e, trace)
       | Inr (prices, offer_ids') \<Rightarrow>
      (case divide_list prices 500 of
         Inl e \<Rightarrow> (Inl e, trace)
       | Inr price_batches \<Rightarrow>
      (case update_all (UpdatePrice campaign_id) (reply w) price_batches trace of
         (Some e, trace') \<Rightarrow> (Inl e, trace')
       | (None, trace') \<Rightarrow> (Inr prices, trace')))))"

text \<open>
  One account in the \<open>try\<close> block of market.py's \<open>main\<close> (lines 310-314 for FBS, the
  same statements in lines 316-320 for DBS): fetch, build and send the stocks, then
  call \<open>upload_prices\<close>. The call is not awaited: its coroutine object is dropped.
\<close>

definition market_account ::
  "world \<Rightarrow> row list \<Rightarrow> string \<Rightarrow> string \<Rightarrow> string \<Rightarrow>
   (market_stock, market_price) event list \<Rightarrow>
   error option \<times> (market_stock, market_price) event list"
where
  "market_account w watch_remnants campaign_id warehouse_id market_token trace =
     (case fetched w campaign_id market_token of
        Inl e \<Rightarrow> (Some e, trace)
      | Inr offer_ids \<Rightarrow>
     (case market_create_stocks (utcnow w (length trace)) watch_remnants offer_ids
             warehouse_id of
        Inl e \<Rightarrow> (Some e, trace)
      | Inr (stocks, offer_ids') \<Rightarrow>
     (case divide_list stocks 2000 of
        Inl e \<Rightarrow> (Some e, trace)
      | Inr stock_batches \<Rightarrow>
     (case update_all (UpdateStocks campaign_id) (reply w) stock_batches trace of
        (Some e, trace') \<Rightarrow> (Some e, trace')
      | (None, trace') \<Rightarrow>
          (let dropped = market_upload_prices w watch_remnants campaign_id market_token
           in (None, trace'))))))"

definition market_main_try ::
  "world \<Rightarrow> row list \<Rightarrow> string \<Rightarrow> string \<Rightarrow> string \<Rightarrow> string \<Rightarrow> string \<Rightarrow>
   error option \<times> (market_stock, market_price) event list"
where
  "market_main_try w watch_remnants market_token campaign_fbs_id campaign_dbs_id
       warehouse_fbs_id warehouse_dbs_id =
     (case market_account w watch_remnants campaign_fbs_id warehouse_fbs_id market_token [] of
        (Some e, trace) \<Rightarrow> (Some e, trace)
      | (None, trace) \<Rightarrow>
          market_account w watch_remnants campaign_dbs_id warehouse_dbs_id market_token trace)"

text \<open>
  market.py's \<open>main\<close>: five \<open>env.str\<close> calls and \<open>download_stock()\<close> stand before the
  \<open>try\<close>.
\<close>

definition market_main :: "world \<Rightarrow> (market_stock, market_price) outcome" where
  "market_main w =
     (case environ w ''MARKET_TOKEN'' of
        None \<Rightarrow> Propagated EnvError []
      | Some market_token \<Rightarrow>
     (case environ w ''FBS_ID'' of
        None \<Rightarrow> Propagated EnvError []
      | Some campaign_fbs_id \<Rightarrow>
     (case environ w ''DBS_ID'' of
        None \<Rightarrow> Propagated EnvError []
      | Some campaign_dbs_id \<Rightarrow>
     (case environ w ''WAREHOUSE_FBS_ID'' of
        None \<Rightarrow> Propagated EnvError []
      | Some warehouse_fbs_id \<Rightarrow>
     (case environ w ''WAREHOUSE_DBS_ID'' of
        None \<Rightarrow> Propagated EnvError []
      | Some warehouse_dbs_id \<Rightarrow>
     (case feed w of
        Inl e \<Rightarrow> Propagated e []
      | Inr watch_remnants \<Rightarrow>
     (case market_main_try w watch_remnants market_token campaign_fbs_id campaign_dbs_id
             warehouse_fbs_id warehouse_dbs_id of
        (Some e, trace) \<Rightarrow> Returned (trace @ [Print (except_message e)])
      | (None, trace) \<Rightarrow> Returned trace)))))))"

text \<open>The update requests for prices in a trace.\<close>

fun is_price_update :: "('s, 'p) event \<Rightarrow> bool" where
  "is_price_update (UpdatePrice account batch) = True"
| "is_price_update ev = False"

fun trace_of :: "('s, 'p) outcome \<Rightarrow> ('s, 'p) event list" where
  "trace_of (Returned trace) = trace"
| "trace_of (Propagated e trace) = trace"

text \<open>
  A run in which everything outside works: all variables are set, every account lists
  the one offer "1", the feed has one row for it, every request succeeds.
\<close>

definition example_world :: world where
  "example_world =
     \<lparr>environ = [''SELLER_TOKEN'' \<mapsto> ''t'', ''CLIENT_ID'' \<mapsto> ''c'',
                  ''MARKET_TOKEN'' \<mapsto> ''t'', ''FBS_ID'' \<mapsto> ''f'', ''DBS_ID'' \<mapsto> ''d'',
                  ''WAREHOUSE_FBS_ID'' \<mapsto> ''wf'', ''WAREHOUSE_DBS_ID'' \<mapsto> ''wd''],
      fetched = (\<lambda>account token. Inr [''1'']),
      feed = Inr [\<lparr>kod = StrV ''1'', kolichestvo = StrV ''5'', tsena = ''1000.00''\<rparr>],
      reply = (\<lambda>n. None),
      utcnow = (\<lambda>n. ''2024-01-01T00:00:00Z'')\<rparr>"

section \<open>Properties of price\_conversion\<close>

lemma fst_split: "fst (split sep s) = takeWhile (\<lambda>c. c \<noteq> sep) s"
  by (induction s) (auto split: prod.splits)

text \<open>
  C5. For every price string \<open>s\<close>, \<open>price_conversion s\<close> holds only ASCII digits and is
  the digit-filtered prefix of \<open>s\<close> up to its first dot; when that prefix has no digit
  the result is the empty string.
\<close>

theorem price_conversion_digits_of_prefix:
  "(\<forall>c \<in> set (price_conversion s). c \<in> set ''0123456789'') \<and>
   price_conversion s =
     filter (\<lambda>c. c \<in> set ''0123456789'') (takeWhile (\<lambda>c. c \<noteq> CHR ''.'') s) \<and>
   ((\<forall>c \<in> set (takeWhile (\<lambda>c. c \<noteq> CHR ''.'') s). c \<notin> set ''0123456789'')
      \<longrightarrow> price_conversion s = [])"
proof -
  have eq: "price_conversion s =
      filter (\<lambda>c. c \<in> set ''0123456789'') (takeWhile (\<lambda>c. c \<noteq> CHR ''.'') s)"
    by (simp only: price_conversion_def re_sub_non_digits_def fst_split)
  have only: "\<forall>c \<in> set (price_conversion s). c \<in> set ''0123456789''"
    unfolding eq by (simp only: set_filter mem_Collect_eq) blast
  have none: "(\<forall>c \<in> set (takeWhile (\<lambda>c. c \<noteq> CHR ''.'') s). c \<notin> set ''0123456789'')
      \<longrightarrow> price_conversion s = []"
    unfolding eq by (simp only: filter_empty_conv) blast
  from only eq none show ?thesis by blast
qed

theorem price_conversion_digits_of_prefix_witness:
  "price_conversion ''1'234.50 rub.'' = ''1234'' \<and>
   price_conversion ''rub.99'' = []"
  using price_conversion_digits_of_prefix [of "''1'234.50 rub.''"]
    price_conversion_digits_of_prefix [of "''rub.99''"]
  by simp

section \<open>Properties of divide\<close>

lemma concat_divide_from: "0 < n \<Longrightarrow> concat (divide_from lst n i) = drop i lst"
proof (induction lst n i rule: divide_from.induct)
  case (1 lst n i)
  show ?case
  proof (cases "i < length lst")
    case True
    have "concat (divide_from lst n i) = take n (drop i lst) @ concat (divide_from lst n (i + n))"
      using True "1.prems" by (simp add: divide_from.simps [of lst n i])
    also have "\<dots> = take n (drop i lst) @ drop n (drop i lst)"
      using "1.IH" True "1.prems" by (simp add: add.commute)
    finally show ?thesis by (simp only: append_take_drop_id)
  next
    case False
    then show ?thesis by (simp add: divide_from.simps [of lst n i])
  qed
qed

lemma divide_from_nonempty_chunks: "c \<in> set (divide_from lst n i) \<Longrightarrow> c \<noteq> [] \<and> length c \<le> n"
proof (induction lst n i rule: divide_from.induct)
  case (1 lst n i)
  show ?case
  proof (cases "0 < n \<and> i < length lst")
    case True
    with "1.prems" have "c = take n (drop i lst) \<or> c \<in> set (divide_from lst n (i + n))"
      by (simp add: divide_from.simps [of lst n i])
    then show ?thesis
    proof
      assume "c = take n (drop i lst)"
      with True show ?thesis by auto
    next
      assume "c \<in> set (divide_from lst n (i + n))"
      with "1.IH" True show ?thesis by blast
    qed
  next
    case False
    with "1.prems" show ?thesis by (simp add: divide_from.simps [of lst n i])
  qed
qed

lemma divide_from_butlast_full: "c \<in> set (butlast (divide_from lst n i)) \<Longrightarrow> length c = n"
proof (induction lst n i rule: divide_from.induct)
  case (1 lst n i)
  show ?case
  proof (cases "0 < n \<and> i < length lst")
    case True
    note step = divide_from.simps [of lst n i]
    show ?thesis
    proof (cases "divide_from lst n (i + n) = []")
      case True
      with \<open>0 < n \<and> i < length lst\<close> "1.prems" show ?thesis by (simp add: step)
    next
      case False
      then have more: "i + n < length lst"
        by (auto simp: divide_from.simps [of lst n "i + n"] split: if_splits)
      from False True "1.prems"
      have "c = take n (drop i lst) \<or> c \<in> set (butlast (divide_from lst n (i + n)))"
        by (simp add: step)
      then show ?thesis
      proof
        assume "c = take n (drop i lst)"
        with more show ?thesis by simp
      next
        assume "c \<in> set (butlast (divide_from lst n (i + n)))"
        with "1.IH" True show ?thesis by blast
      qed
    qed
  next
    case False
    with "1.prems" show ?thesis by (simp add: divide_from.simps [of lst n i])
  qed
qed

text \<open>
  C6. For a positive chunk size the chunks of \<open>divide\<close>, concatenated in order, are the
  list itself; every chunk but the last has exactly \<open>n\<close> elements, no chunk is empty
  (nor longer than \<open>n\<close>), and the empty list has no chunks.
\<close>

theorem divide_chunks:
  assumes "0 < n"
  shows "\<exists>chunks. divide_list lst n = Inr chunks \<and> concat chunks = lst \<and>
           (\<forall>c \<in> set (butlast chunks). length c = nat n) \<and>
           (\<forall>c \<in> set chunks. c \<noteq> [] \<and> length c \<le> nat n) \<and>
           (lst = [] \<longrightarrow> chunks = [])"
proof -
  from assms have pos: "0 < nat n" by simp
  have d: "divide_list lst n = Inr (divide_from lst (nat n) 0)"
    using assms by (simp add: divide_list_def)
  have c: "concat (divide_from lst (nat n) 0) = lst"
    using concat_divide_from [OF pos, of lst 0] by simp
  have e: "lst = [] \<longrightarrow> divide_from lst (nat n) 0 = []"
    by (simp add: divide_from.simps)
  from d c e divide_from_butlast_full [of _ lst "nat n" 0]
    divide_from_nonempty_chunks [of _ lst "nat n" 0]
  show ?thesis by blast
qed

theorem divide_chunks_witness:
  "divide_list [1, 2, 3, 4, 5 :: nat] 2 = Inr [[1, 2], [3, 4], [5]] \<and>
   divide_list ([] :: nat list) 2 = Inr []"
  using divide_chunks [of 2 "[1, 2, 3, 4, 5 :: nat]"] divide_chunks [of 2 "[] :: nat list"]
  by (simp add: divide_list_def divide_from.simps)

section \<open>The first loop of create\_stocks, in closed form\<close>

lemma matched_rows_Cons_in:
  assumes "distinct ids" "code w \<in> set ids"
  shows "matched_rows (w # ws) ids = w # matched_rows ws (remove1 (code w) ids)"
proof -
  have "filter (\<lambda>v. code v \<in> set ids) (filter (\<lambda>v. code v \<noteq> code w) (first_rows ws))
      = filter (\<lambda>v. code v \<in> set (remove1 (code w) ids)) (first_rows ws)"
    using assms(1) by (auto simp: filter_filter intro!: filter_cong)
  with assms(2) show ?thesis by (simp add: matched_rows_def)
qed

lemma matched_rows_Cons_out:
  assumes "code w \<notin> set ids"
  shows "matched_rows (w # ws) ids = matched_rows ws ids"
proof -
  have "filter (\<lambda>v. code v \<in> set ids) (filter (\<lambda>v. code v \<noteq> code w) (first_rows ws))
      = filter (\<lambda>v. code v \<in> set ids) (first_rows ws)"
    using assms by (auto simp: filter_filter intro!: filter_cong)
  with assms show ?thesis by (simp add: matched_rows_def)
qed

lemma unmatched_ids_Cons_in:
  assumes "distinct ids"
  shows "unmatched_ids (w # ws) ids = unmatched_ids ws (remove1 (code w) ids)"
proof -
  have "remove1 (code w) ids = filter (\<lambda>i. i \<noteq> code w) ids"
    using assms by (simp add: distinct_remove1_removeAll removeAll_filter_not_eq) metis
  then show ?thesis
    by (auto simp: unmatched_ids_def filter_filter intro!: filter_cong)
qed

lemma unmatched_ids_Cons_out:
  assumes "code w \<notin> set ids"
  shows "unmatched_ids (w # ws) ids = unmatched_ids ws ids"
  using assms by (auto simp: unmatched_ids_def intro!: filter_cong)

lemma create_stocks_loop_matched:
  assumes "distinct ids"
    and "\<forall>w \<in> set (matched_rows rows ids). \<exists>n. resolve_quantity (kolichestvo w) = Inr n"
  shows "create_stocks_loop mk rows ids acc =
           Inr (acc @ map (\<lambda>w. mk (code w) (stock_of w)) (matched_rows rows ids),
                unmatched_ids rows ids)"
  using assms
proof (induction rows arbitrary: ids acc)
  case Nil
  then show ?case by (simp add: matched_rows_def unmatched_ids_def)
next
  case (Cons w ws)
  show ?case
  proof (cases "code w \<in> set ids")
    case True
    have m: "matched_rows (w # ws) ids = w # matched_rows ws (remove1 (code w) ids)"
      using Cons.prems(1) True by (rule matched_rows_Cons_in)
    with Cons.prems(2) obtain n where n: "resolve_quantity (kolichestvo w) = Inr n"
      by auto
    have d: "distinct (remove1 (code w) ids)" using Cons.prems(1) by simp
    have r: "\<forall>v \<in> set (matched_rows ws (remove1 (code w) ids)).
               \<exists>n. resolve_quantity (kolichestvo v) = Inr n"
      using Cons.prems(2) m by simp
    have "create_stocks_loop mk (w # ws) ids acc =
            create_stocks_loop mk ws (remove1 (code w) ids) (acc @ [mk (code w) n])"
      using True n by (simp add: code_def resolve_quantity_def Let_def)
    also have "\<dots> = Inr ((acc @ [mk (code w) n]) @
         map (\<lambda>w. mk (code w) (stock_of w)) (matched_rows ws (remove1 (code w) ids)),
         unmatched_ids ws (remove1 (code w) ids))"
      using Cons.IH [OF d r] .
    finally show ?thesis
      using n by (simp add: m unmatched_ids_Cons_in [OF Cons.prems(1)] stock_of_def)
  next
    case False
    have m: "matched_rows (w # ws) ids = matched_rows ws ids"
      using False by (rule matched_rows_Cons_out)
    have "create_stocks_loop mk (w # ws) ids acc = create_stocks_loop mk ws ids acc"
      using False by (simp add: code_def)
    also have "\<dots> = Inr (acc @ map (\<lambda>w. mk (code w) (stock_of w)) (matched_rows ws ids),
         unmatched_ids ws ids)"
      using Cons.IH [OF Cons.prems(1)] Cons.prems(2) m by simp
    finally show ?thesis
      by (simp add: m unmatched_ids_Cons_out [OF False])
  qed
qed

lemma create_stocks_matched:
  assumes "distinct ids"
    and "\<forall>w \<in> set (matched_rows rows ids). \<exists>n. resolve_quantity (kolichestvo w) = Inr n"
  shows "create_stocks mk rows ids =
           Inr (map (\<lambda>w. mk (code w) (stock_of w)) (matched_rows rows ids) @
                map (\<lambda>i. mk i 0) (unmatched_ids rows ids),
                unmatched_ids rows ids)"
  by (simp add: create_stocks_def create_stocks_loop_matched [OF assms])

section \<open>First matches and unmatched offer ids\<close>

lemma first_rows_subset: "set (first_rows rows) \<subseteq> set rows"
  by (induction rows) auto

lemma code_first_rows: "code ` set (first_rows rows) = code ` set rows"
proof (induction rows)
  case Nil
  show ?case by simp
next
  case (Cons w ws)
  have "code ` set (first_rows (w # ws)) =
          insert (code w) (code ` {v \<in> set (first_rows ws). code v \<noteq> code w})"
    by simp
  also have "\<dots> = insert (code w) (code ` set (first_rows ws))"
    by auto
  finally show ?case using Cons.IH by simp
qed

lemma distinct_code_first_rows: "distinct (map code (first_rows rows))"
proof (induction rows)
  case Nil
  show ?case by simp
next
  case (Cons w ws)
  then have "distinct (map code (filter (\<lambda>v. code v \<noteq> code w) (first_rows ws)))"
    by (rule distinct_map_filter)
  then show ?case by auto
qed

lemma find_first_rows:
  "w \<in> set (first_rows rows) \<Longrightarrow> find (\<lambda>v. code v = code w) rows = Some w"
  by (induction rows) auto

lemma find_None_code: "i \<notin> code ` set rows \<Longrightarrow> find (\<lambda>v. code v = i) rows = None"
  by (auto simp: find_None_iff)

lemma distinct_code_matched_rows: "distinct (map code (matched_rows rows ids))"
  unfolding matched_rows_def using distinct_code_first_rows by (rule distinct_map_filter)

lemma set_code_matched_rows:
  "set (map code (matched_rows rows ids)) = set ids \<inter> code ` set rows"
proof -
  have "set (map code (matched_rows rows ids)) = set ids \<inter> code ` set (first_rows rows)"
    by (auto simp: matched_rows_def)
  then show ?thesis by (simp only: code_first_rows)
qed

lemma set_unmatched_ids: "set (unmatched_ids rows ids) = set ids - code ` set rows"
  by (auto simp: unmatched_ids_def)

lemma mset_matched_unmatched:
  assumes "distinct ids"
  shows "mset (map code (matched_rows rows ids) @ unmatched_ids rows ids) = mset ids"
proof -
  have d: "distinct (map code (matched_rows rows ids) @ unmatched_ids rows ids)"
    using assms distinct_code_matched_rows [of rows ids]
    by (auto simp: set_code_matched_rows set_unmatched_ids unmatched_ids_def
             simp del: set_map)
  have s: "set (map code (matched_rows rows ids) @ unmatched_ids rows ids) = set ids"
    unfolding set_append set_code_matched_rows set_unmatched_ids by blast
  from d assms s show ?thesis by (simp only: set_eq_iff_mset_eq_distinct)
qed

section \<open>The records of create\_stocks\<close>

lemma resolve_quantity_cases:
  "resolve_quantity q = Inr n \<Longrightarrow>
     (if py_str q = ''>10'' then n = 100
      else if py_str q = ''1'' then n = 0
      else py_int q = Inr n)"
  by (auto simp: resolve_quantity_def split: if_splits)

lemma create_stocks_records:
  assumes d: "distinct ids"
    and wf: "\<forall>w \<in> set (matched_rows rows ids). \<exists>n. resolve_quantity (kolichestvo w) = Inr n"
    and key: "\<And>i n. key (mk i n) = i"
    and cnt: "\<And>i n. cnt (mk i n) = n"
  shows "\<exists>stocks.
      create_stocks mk rows ids = Inr (stocks, unmatched_ids rows ids) \<and>
      stocks = map (\<lambda>w. mk (code w) (stock_of w)) (matched_rows rows ids) @
               map (\<lambda>i. mk i 0) (unmatched_ids rows ids) \<and>
      mset (map key stocks) = mset ids \<and>
      (\<forall>r \<in> set stocks. r = mk (key r) (cnt r)) \<and>
      (\<forall>r \<in> set stocks.
         case find (\<lambda>w. code w = key r) rows of
           None \<Rightarrow> cnt r = 0
         | Some w \<Rightarrow> resolve_quantity (kolichestvo w) = Inr (cnt r))"
proof -
  define stocks where "stocks = map (\<lambda>w. mk (code w) (stock_of w)) (matched_rows rows ids) @
               map (\<lambda>i. mk i 0) (unmatched_ids rows ids)"
  have run: "create_stocks mk rows ids = Inr (stocks, unmatched_ids rows ids)"
    unfolding stocks_def using d wf by (rule create_stocks_matched)
  have keys: "map key stocks = map code (matched_rows rows ids) @ unmatched_ids rows ids"
    by (simp add: stocks_def key comp_def)
  have perm: "mset (map key stocks) = mset ids"
    unfolding keys using d by (rule mset_matched_unmatched)
  have shape: "\<forall>r \<in> set stocks. r = mk (key r) (cnt r)"
    by (auto simp: stocks_def key cnt)
  have counts: "\<forall>r \<in> set stocks.
         case find (\<lambda>w. code w = key r) rows of
           None \<Rightarrow> cnt r = 0
         | Some w \<Rightarrow> resolve_quantity (kolichestvo w) = Inr (cnt r)"
  proof
    fix r assume "r \<in> set stocks"
    then consider w where "w \<in> set (matched_rows rows ids)" "r = mk (code w) (stock_of w)"
      | i where "i \<in> set (unmatched_ids rows ids)" "r = mk i 0"
      by (auto simp: stocks_def)
    then show "case find (\<lambda>w. code w = key r) rows of
           None \<Rightarrow> cnt r = 0
         | Some w \<Rightarrow> resolve_quantity (kolichestvo w) = Inr (cnt r)"
    proof cases
      case 1
      then have "w \<in> set (first_rows rows)" by (simp add: matched_rows_def)
      then have f: "find (\<lambda>v. code v = code w) rows = Some w" by (rule find_first_rows)
      from 1 wf obtain n where "resolve_quantity (kolichestvo w) = Inr n" by blast
      then have "resolve_quantity (kolichestvo w) = Inr (stock_of w)"
        by (simp add: stock_of_def)
      with 1 f show ?thesis by (simp add: key cnt)
    next
      case 2
      then have "i \<notin> code ` set rows" by (simp add: set_unmatched_ids)
      then have "find (\<lambda>v. code v = i) rows = None" by (rule find_None_code)
      with 2 show ?thesis by (simp add: key cnt)
    qed
  qed
  from run perm shape counts show ?thesis unfolding stocks_def by blast
qed

lemma mset_keys_facts:
  assumes "mset (map key stocks) = mset ids" "distinct ids"
  shows "length stocks = length ids" "distinct (map key stocks)" "key ` set stocks = set ids"
proof -
  from assms(1) have "size (mset (map key stocks)) = size (mset ids)" by simp
  then show "length stocks = length ids" by simp
  from assms show "distinct (map key stocks)" by (metis mset_eq_imp_distinct_iff)
  from assms(1) have "set (map key stocks) = set ids" by (rule mset_eq_setD)
  then show "key ` set stocks = set ids" by simp
qed

section \<open>One record per offer\<close>

lemma find_code_cases:
  assumes "case find (\<lambda>w. code w = k) rows of None \<Rightarrow> P | Some w \<Rightarrow> Q w"
  shows "if k \<in> code ` set rows then \<exists>w \<in> set rows. code w = k \<and> Q w else P"
proof (cases "find (\<lambda>w. code w = k) rows")
  case None
  then have "k \<notin> code ` set rows" by (auto simp: find_None_iff)
  with assms None show ?thesis by simp
next
  case (Some w)
  then have "w \<in> set rows \<and> code w = k" by (auto simp: find_Some_iff in_set_conv_nth)
  with assms Some show ?thesis by auto
qed

lemma create_stocks_one_each:
  assumes d: "distinct ids"
    and wf: "\<forall>w \<in> set (matched_rows rows ids). \<exists>n. resolve_quantity (kolichestvo w) = Inr n"
    and key: "\<And>i n. key (mk i n) = i"
    and cnt: "\<And>i n. cnt (mk i n) = n"
  shows "\<exists>stocks rest.
      create_stocks mk rows ids = Inr (stocks, rest) \<and>
      length stocks = length ids \<and>
      (\<forall>r \<in> set stocks. key r \<in> set ids) \<and>
      distinct (map key stocks) \<and>
      (\<forall>i \<in> set ids. \<exists>r \<in> set stocks. key r = i) \<and>
      (\<forall>r \<in> set stocks. r = mk (key r) (cnt r)) \<and>
      (\<forall>r \<in> set stocks.
         if key r \<in> code ` set rows
         then \<exists>w \<in> set rows. code w = key r \<and> resolve_quantity (kolichestvo w) = Inr (cnt r)
         else cnt r = 0)"
proof -
  from create_stocks_records [of ids rows key mk cnt, OF d wf key cnt]
  obtain stocks where run: "create_stocks mk rows ids = Inr (stocks, unmatched_ids rows ids)"
    and perm: "mset (map key stocks) = mset ids"
    and shape: "\<forall>r \<in> set stocks. r = mk (key r) (cnt r)"
    and counts: "\<forall>r \<in> set stocks.
         case find (\<lambda>w. code w = key r) rows of
           None \<Rightarrow> cnt r = 0
         | Some w \<Rightarrow> resolve_quantity (kolichestvo w) = Inr (cnt r)"
    by blast
  note facts = mset_keys_facts [OF perm d]
  have mem: "\<forall>r \<in> set stocks. key r \<in> set ids" using facts(3) by blast
  have all: "\<forall>i \<in> set ids. \<exists>r \<in> set stocks. key r = i"
  proof
    fix i assume "i \<in> set ids"
    with facts(3) have "i \<in> key ` set stocks" by simp
    then show "\<exists>r \<in> set stocks. key r = i" by auto
  qed
  have derived: "\<forall>r \<in> set stocks.
         if key r \<in> code ` set rows
         then \<exists>w \<in> set rows. code w = key r \<and> resolve_quantity (kolichestvo w) = Inr (cnt r)
         else cnt r = 0"
  proof
    fix r assume "r \<in> set stocks"
    with counts have "case find (\<lambda>w. code w = key r) rows of
           None \<Rightarrow> cnt r = 0
         | Some w \<Rightarrow> resolve_quantity (kolichestvo w) = Inr (cnt r)" by blast
    then show "if key r \<in> code ` set rows
         then \<exists>w \<in> set rows. code w = key r \<and> resolve_quantity (kolichestvo w) = Inr (cnt r)
         else cnt r = 0"
      by (rule find_code_cases)
  qed
  from run facts(1) mem facts(2) all shape derived show ?thesis by blast
qed

text \<open>
  C1. For a duplicate-free offer-id list, and inventory rows whose matched quantities
  are a sentinel or an integer literal (the quantity field of the data model), both
  \<open>create_stocks\<close> return a list with as many records as there are offer ids; every
  record's offer id is one of them, no offer id has two records and every offer id has
  one; the count of a record is the resolved quantity of a row with its code when
  there is such a row, and 0 otherwise.
\<close>

theorem create_stocks_one_record_per_offer:
  assumes "distinct offer_ids"
    and "\<forall>w \<in> set (matched_rows watch_remnants offer_ids).
           \<exists>n. resolve_quantity (kolichestvo w) = Inr n"
  shows
    "(\<exists>stocks rest.
        seller_create_stocks watch_remnants offer_ids = Inr (stocks, rest) \<and>
        length stocks = length offer_ids \<and>
        (\<forall>r \<in> set stocks. offer_id r \<in> set offer_ids) \<and>
        distinct (map offer_id stocks) \<and>
        (\<forall>i \<in> set offer_ids. \<exists>r \<in> set stocks. offer_id r = i) \<and>
        (\<forall>r \<in> set stocks.
           if offer_id r \<in> code ` set watch_remnants
           then \<exists>w \<in> set watch_remnants.
                  code w = offer_id r \<and> resolve_quantity (kolichestvo w) = Inr (stock r)
           else stock r = 0)) \<and>
     (\<exists>stocks rest.
        market_create_stocks date watch_remnants offer_ids warehouse_id = Inr (stocks, rest) \<and>
        length stocks = length offer_ids \<and>
        (\<forall>r \<in> set stocks. sku r \<in> set offer_ids) \<and>
        distinct (map sku stocks) \<and>
        (\<forall>i \<in> set offer_ids. \<exists>r \<in> set stocks. sku r = i) \<and>
        (\<forall>r \<in> set stocks. \<exists>n.
           map item_count (items r) = [n] \<and>
           (if sku r \<in> code ` set watch_remnants
            then \<exists>w \<in> set watch_remnants.
                   code w = sku r \<and> resolve_quantity (kolichestvo w) = Inr n
            else n = 0)))"
proof
  from create_stocks_one_each [of offer_ids watch_remnants offer_id
      "\<lambda>i n. \<lparr>offer_id = i, stock = n\<rparr>" stock, OF assms]
  show "\<exists>stocks rest.
        seller_create_stocks watch_remnants offer_ids = Inr (stocks, rest) \<and>
        length stocks = length offer_ids \<and>
        (\<forall>r \<in> set stocks. offer_id r \<in> set offer_ids) \<and>
        distinct (map offer_id stocks) \<and>
        (\<forall>i \<in> set offer_ids. \<exists>r \<in> set stocks. offer_id r = i) \<and>
        (\<forall>r \<in> set stocks.
           if offer_id r \<in> code ` set watch_remnants
           then \<exists>w \<in> set watch_remnants.
                  code w = offer_id r \<and> resolve_quantity (kolichestvo w) = Inr (stock r)
           else stock r = 0)"
    unfolding seller_create_stocks_def by simp
next
  let ?mk = "\<lambda>i n. \<lparr>sku = i, warehouseId = warehouse_id,
                 items = [\<lparr>item_count = n, item_type = ''FIT'', updatedAt = date\<rparr>]\<rparr>"
  let ?cnt = "\<lambda>r. item_count (hd (items r))"
  from create_stocks_one_each [of offer_ids watch_remnants sku ?mk ?cnt, OF assms]
  obtain stocks rest where run: "create_stocks ?mk watch_remnants offer_ids = Inr (stocks, rest)"
    and len: "length stocks = length offer_ids"
    and mem: "\<forall>r \<in> set stocks. sku r \<in> set offer_ids"
    and dis: "distinct (map sku stocks)"
    and all: "\<forall>i \<in> set offer_ids. \<exists>r \<in> set stocks. sku r = i"
    and shape: "\<forall>r \<in> set stocks. r = ?mk (sku r) (?cnt r)"
    and derived: "\<forall>r \<in> set stocks.
         if sku r \<in> code ` set watch_remnants
         then \<exists>w \<in> set watch_remnants.
                code w = sku r \<and> resolve_quantity (kolichestvo w) = Inr (?cnt r)
         else ?cnt r = 0"
    by simp blast
  have counts: "\<forall>r \<in> set stocks. \<exists>n.
           map item_count (items r) = [n] \<and>
           (if sku r \<in> code ` set watch_remnants
            then \<exists>w \<in> set watch_remnants.
                   code w = sku r \<and> resolve_quantity (kolichestvo w) = Inr n
            else n = 0)"
  proof
    fix r assume r: "r \<in> set stocks"
    define n where "n = ?cnt r"
    from r shape have "r = ?mk (sku r) n" unfolding n_def by blast
    then have "items r = [\<lparr>item_count = n, item_type = ''FIT'', updatedAt = date\<rparr>]"
      by (metis market_stock.select_convs(3))
    then have "map item_count (items r) = [n]" by simp
    moreover from derived r have
      "if sku r \<in> code ` set watch_remnants
       then \<exists>w \<in> set watch_remnants.
              code w = sku r \<and> resolve_quantity (kolichestvo w) = Inr n
       else n = 0"
      unfolding n_def by blast
    ultimately have "map item_count (items r) = [n] \<and>
           (if sku r \<in> code ` set watch_remnants
            then \<exists>w \<in> set watch_remnants.
                   code w = sku r \<and> resolve_quantity (kolichestvo w) = Inr n
            else n = 0)" by (rule conjI)
    then show "\<exists>n.
           map item_count (items r) = [n] \<and>
           (if sku r \<in> code ` set watch_remnants
            then \<exists>w \<in> set watch_remnants.
                   code w = sku r \<and> resolve_quantity (kolichestvo w) = Inr n
            else n = 0)" by (rule exI)
  qed
  from run len mem dis all counts
  show "\<exists>stocks rest.
        market_create_stocks date watch_remnants offer_ids warehouse_id = Inr (stocks, rest) \<and>
        length stocks = length offer_ids \<and>
        (\<forall>r \<in> set stocks. sku r \<in> set offer_ids) \<and>
        distinct (map sku stocks) \<and>
        (\<forall>i \<in> set offer_ids. \<exists>r \<in> set stocks. sku r = i) \<and>
        (\<forall>r \<in> set stocks. \<exists>n.
           map item_count (items r) = [n] \<and>
           (if sku r \<in> code ` set watch_remnants
            then \<exists>w \<in> set watch_remnants.
                   code w = sku r \<and> resolve_quantity (kolichestvo w) = Inr n
            else n = 0))"
    unfolding market_create_stocks_def by blast
qed

lemmas py_int_simps =
  int_of_str_def decimal_and_space_to_ascii_def strip_def is_space_def int_literal_def
  is_digit_def digit_val_def

lemmas stocks_simps =
  seller_create_stocks_def market_create_stocks_def create_stocks_def code_def
  resolve_quantity_def matched_rows_def unmatched_ids_def stock_of_def

theorem create_stocks_one_record_per_offer_witness:
  "distinct [''1'', ''2'', ''3''] \<and>
   seller_create_stocks
     [\<lparr>kod = StrV ''1'', kolichestvo = StrV ''5'', tsena = ''1000.00''\<rparr>,
      \<lparr>kod = IntV 2, kolichestvo = StrV ''>10'', tsena = ''2000.00''\<rparr>,
      \<lparr>kod = IntV 2, kolichestvo = IntV 9, tsena = ''2000.00''\<rparr>]
     [''1'', ''2'', ''3''] =
   Inr ([\<lparr>offer_id = ''1'', stock = 5\<rparr>, \<lparr>offer_id = ''2'', stock = 100\<rparr>,
         \<lparr>offer_id = ''3'', stock = 0\<rparr>], [''3'']) \<and>
   market_create_stocks ''2024-01-01T00:00:00Z''
     [\<lparr>kod = StrV ''1'', kolichestvo = StrV ''5'', tsena = ''1000.00''\<rparr>,
      \<lparr>kod = IntV 2, kolichestvo = StrV ''>10'', tsena = ''2000.00''\<rparr>,
      \<lparr>kod = IntV 2, kolichestvo = IntV 9, tsena = ''2000.00''\<rparr>]
     [''1'', ''2'', ''3''] ''77'' =
   Inr ([\<lparr>sku = ''1'', warehouseId = ''77'',
           items = [\<lparr>item_count = 5, item_type = ''FIT'',
                     updatedAt = ''2024-01-01T00:00:00Z''\<rparr>]\<rparr>,
         \<lparr>sku = ''2'', warehouseId = ''77'',
           items = [\<lparr>item_count = 100, item_type = ''FIT'',
                     updatedAt = ''2024-01-01T00:00:00Z''\<rparr>]\<rparr>,
         \<lparr>sku = ''3'', warehouseId = ''77'',
           items = [\<lparr>item_count = 0, item_type = ''FIT'',
                     updatedAt = ''2024-01-01T00:00:00Z''\<rparr>]\<rparr>], [''3''])"
proof -
  let ?rows = "[\<lparr>kod = StrV ''1'', kolichestvo = StrV ''5'', tsena = ''1000.00''\<rparr>,
      \<lparr>kod = IntV 2, kolichestvo = StrV ''>10'', tsena = ''2000.00''\<rparr>,
      \<lparr>kod = IntV 2, kolichestvo = IntV 9, tsena = ''2000.00''\<rparr>]"
  let ?ids = "[''1'', ''2'', ''3'']"
  have d: "distinct ?ids" by simp
  have wf: "\<forall>w \<in> set (matched_rows ?rows ?ids). \<exists>n. resolve_quantity (kolichestvo w) = Inr n"
    by (simp add: stocks_simps py_int_simps str_int_def str_nat.simps Let_def)
  from create_stocks_one_record_per_offer [OF d wf, of "''2024-01-01T00:00:00Z''" "''77''"]
  show ?thesis
    by (simp add: stocks_simps py_int_simps str_int_def str_nat.simps Let_def)
qed

section \<open>The quantity mapping\<close>

lemma quantity_mapped_resolve:
  assumes "case find (\<lambda>w. code w = k) rows of
             None \<Rightarrow> n = 0
           | Some w \<Rightarrow> resolve_quantity (kolichestvo w) = Inr n"
  shows "quantity_mapped rows k n"
proof (cases "find (\<lambda>w. code w = k) rows")
  case None
  with assms show ?thesis by (simp add: quantity_mapped_def)
next
  case (Some w)
  with assms have "resolve_quantity (kolichestvo w) = Inr n" by simp
  from resolve_quantity_cases [OF this] Some show ?thesis
    by (simp add: quantity_mapped_def)
qed

lemma create_stocks_mapping:
  assumes d: "distinct ids"
    and wf: "\<forall>w \<in> set (matched_rows rows ids). \<exists>n. resolve_quantity (kolichestvo w) = Inr n"
    and key: "\<And>i n. key (mk i n) = i"
    and cnt: "\<And>i n. cnt (mk i n) = n"
  shows "\<exists>stocks rest.
      create_stocks mk rows ids = Inr (stocks, rest) \<and>
      (\<forall>i \<in> set ids. \<exists>r \<in> set stocks. key r = i) \<and>
      (\<forall>r \<in> set stocks. r = mk (key r) (cnt r)) \<and>
      (\<forall>r \<in> set stocks. quantity_mapped rows (key r) (cnt r))"
proof -
  from create_stocks_records [of ids rows key mk cnt, OF d wf key cnt]
  obtain stocks where run: "create_stocks mk rows ids = Inr (stocks, unmatched_ids rows ids)"
    and perm: "mset (map key stocks) = mset ids"
    and shape: "\<forall>r \<in> set stocks. r = mk (key r) (cnt r)"
    and counts: "\<forall>r \<in> set stocks.
         case find (\<lambda>w. code w = key r) rows of
           None \<Rightarrow> cnt r = 0
         | Some w \<Rightarrow> resolve_quantity (kolichestvo w) = Inr (cnt r)"
    by blast
  have all: "\<forall>i \<in> set ids. \<exists>r \<in> set stocks. key r = i"
  proof
    fix i assume "i \<in> set ids"
    with mset_keys_facts(3) [OF perm d] have "i \<in> key ` set stocks" by simp
    then show "\<exists>r \<in> set stocks. key r = i" by auto
  qed
  have mapping: "\<forall>r \<in> set stocks. quantity_mapped rows (key r) (cnt r)"
  proof
    fix r assume "r \<in> set stocks"
    with counts have "case find (\<lambda>w. code w = key r) rows of
           None \<Rightarrow> cnt r = 0
         | Some w \<Rightarrow> resolve_quantity (kolichestvo w) = Inr (cnt r)" by blast
    then show "quantity_mapped rows (key r) (cnt r)" by (rule quantity_mapped_resolve)
  qed
  from run all shape mapping show ?thesis by blast
qed

text \<open>
  C7. In the records both \<open>create_stocks\<close> return, the count of an offer id is decided
  by the first row of that code: quantity ">10" gives 100, "1" gives 0, any other
  quantity gives its integer parse (so "7" gives 7); an offer id that no row matches
  has count 0. Every offer id has such a record.
\<close>

theorem create_stocks_quantity_mapping:
  assumes "distinct offer_ids"
    and "\<forall>w \<in> set (matched_rows watch_remnants offer_ids).
           \<exists>n. resolve_quantity (kolichestvo w) = Inr n"
  shows
    "(\<exists>stocks rest.
        seller_create_stocks watch_remnants offer_ids = Inr (stocks, rest) \<and>
        (\<forall>i \<in> set offer_ids. \<exists>r \<in> set stocks. offer_id r = i) \<and>
        (\<forall>r \<in> set stocks. quantity_mapped watch_remnants (offer_id r) (stock r))) \<and>
     (\<exists>stocks rest.
        market_create_stocks date watch_remnants offer_ids warehouse_id = Inr (stocks, rest) \<and>
        (\<forall>i \<in> set offer_ids. \<exists>r \<in> set stocks. sku r = i) \<and>
        (\<forall>r \<in> set stocks. \<exists>n.
           map item_count (items r) = [n] \<and> quantity_mapped watch_remnants (sku r) n))"
proof
  have key: "\<And>i n. offer_id \<lparr>offer_id = i, stock = n\<rparr> = i" by simp
  have cnt: "\<And>i n. stock \<lparr>offer_id = i, stock = n\<rparr> = n" by simp
  from create_stocks_mapping [of offer_ids watch_remnants offer_id
      "\<lambda>i n. \<lparr>offer_id = i, stock = n\<rparr>" stock, OF assms key cnt]
  show "\<exists>stocks rest.
        seller_create_stocks watch_remnants offer_ids = Inr (stocks, rest) \<and>
        (\<forall>i \<in> set offer_ids. \<exists>r \<in> set stocks. offer_id r = i) \<and>
        (\<forall>r \<in> set stocks. quantity_mapped watch_remnants (offer_id r) (stock r))"
    unfolding seller_create_stocks_def by blast
next
  let ?mk = "\<lambda>i n. \<lparr>sku = i, warehouseId = warehouse_id,
                 items = [\<lparr>item_count = n, item_type = ''FIT'', updatedAt = date\<rparr>]\<rparr>"
  let ?cnt = "\<lambda>r. item_count (hd (items r))"
  have key: "\<And>i n. sku (?mk i n) = i" by simp
  have cnt: "\<And>i n. ?cnt (?mk i n) = n" by simp
  from create_stocks_mapping [of offer_ids watch_remnants sku ?mk ?cnt, OF assms key cnt]
  obtain stocks rest where run: "create_stocks ?mk watch_remnants offer_ids = Inr (stocks, rest)"
    and all: "\<forall>i \<in> set offer_ids. \<exists>r \<in> set stocks. sku r = i"
    and shape: "\<forall>r \<in> set stocks. r = ?mk (sku r) (?cnt r)"
    and mapping: "\<forall>r \<in> set stocks. quantity_mapped watch_remnants (sku r) (?cnt r)"
    by blast
  have counts: "\<forall>r \<in> set stocks. \<exists>n.
           map item_count (items r) = [n] \<and> quantity_mapped watch_remnants (sku r) n"
  proof
    fix r assume r: "r \<in> set stocks"
    define n where "n = ?cnt r"
    from r shape have "r = ?mk (sku r) n" unfolding n_def by blast
    then have "items r = [\<lparr>item_count = n, item_type = ''FIT'', updatedAt = date\<rparr>]"
      by (metis market_stock.select_convs(3))
    then have "map item_count (items r) = [n]" by simp
    moreover from mapping r have "quantity_mapped watch_remnants (sku r) n"
      unfolding n_def by blast
    ultimately have
      "map item_count (items r) = [n] \<and> quantity_mapped watch_remnants (sku r) n"
      by (rule conjI)
    then show "\<exists>n.
           map item_count (items r) = [n] \<and> quantity_mapped watch_remnants (sku r) n"
      by (rule exI)
  qed
  from run all counts
  show "\<exists>stocks rest.
        market_create_stocks date watch_remnants offer_ids warehouse_id = Inr (stocks, rest) \<and>
        (\<forall>i \<in> set offer_ids. \<exists>r \<in> set stocks. sku r = i) \<and>
        (\<forall>r \<in> set stocks. \<exists>n.
           map item_count (items r) = [n] \<and> quantity_mapped watch_remnants (sku r) n)"
    unfolding market_create_stocks_def by blast
qed

theorem create_stocks_quantity_mapping_witness:
  "distinct [''a'', ''b'', ''c'', ''d''] \<and>
   seller_create_stocks
     [\<lparr>kod = StrV ''a'', kolichestvo = StrV ''>10'', tsena = ''10.00''\<rparr>,
      \<lparr>kod = StrV ''b'', kolichestvo = StrV ''1'', tsena = ''20.00''\<rparr>,
      \<lparr>kod = StrV ''c'', kolichestvo = StrV ''7'', tsena = ''30.00''\<rparr>]
     [''a'', ''b'', ''c'', ''d''] =
   Inr ([\<lparr>offer_id = ''a'', stock = 100\<rparr>, \<lparr>offer_id = ''b'', stock = 0\<rparr>,
         \<lparr>offer_id = ''c'', stock = 7\<rparr>, \<lparr>offer_id = ''d'', stock = 0\<rparr>], [''d'']) \<and>
   market_create_stocks ''2024-01-01T00:00:00Z''
     [\<lparr>kod = StrV ''a'', kolichestvo = StrV ''>10'', tsena = ''10.00''\<rparr>,
      \<lparr>kod = StrV ''b'', kolichestvo = StrV ''1'', tsena = ''20.00''\<rparr>,
      \<lparr>kod = StrV ''c'', kolichestvo = StrV ''7'', tsena = ''30.00''\<rparr>]
     [''a'', ''b'', ''c'', ''d''] ''77'' =
   Inr ([\<lparr>sku = ''a'', warehouseId = ''77'',
           items = [\<lparr>item_count = 100, item_type = ''FIT'',
                     updatedAt = ''2024-01-01T00:00:00Z''\<rparr>]\<rparr>,
         \<lparr>sku = ''b'', warehouseId = ''77'',
           items = [\<lparr>item_count = 0, item_type = ''FIT'',
                     updatedAt = ''2024-01-01T00:00:00Z''\<rparr>]\<rparr>,
         \<lparr>sku = ''c'', warehouseId = ''77'',
           items = [\<lparr>item_count = 7, item_type = ''FIT'',
                     updatedAt = ''2024-01-01T00:00:00Z''\<rparr>]\<rparr>,
         \<lparr>sku = ''d'', warehouseId = ''77'',
           items = [\<lparr>item_count = 0, item_type = ''FIT'',
                     updatedAt = ''2024-01-01T00:00:00Z''\<rparr>]\<rparr>], [''d'']) \<and>
   quantity_mapped
     [\<lparr>kod = StrV ''a'', kolichestvo = StrV ''>10'', tsena = ''10.00''\<rparr>,
      \<lparr>kod = StrV ''b'', kolichestvo = StrV ''1'', tsena = ''20.00''\<rparr>,
      \<lparr>kod = StrV ''c'', kolichestvo = StrV ''7'', tsena = ''30.00''\<rparr>] ''c'' 7"
proof -
  let ?rows = "[\<lparr>kod = StrV ''a'', kolichestvo = StrV ''>10'', tsena = ''10.00''\<rparr>,
      \<lparr>kod = StrV ''b'', kolichestvo = StrV ''1'', tsena = ''20.00''\<rparr>,
      \<lparr>kod = StrV ''c'', kolichestvo = StrV ''7'', tsena = ''30.00''\<rparr>]"
  let ?ids = "[''a'', ''b'', ''c'', ''d'']"
  have d: "distinct ?ids" by simp
  have wf: "\<forall>w \<in> set (matched_rows ?rows ?ids). \<exists>n. resolve_quantity (kolichestvo w) = Inr n"
    by (simp add: stocks_simps py_int_simps Let_def)
  have run: "seller_create_stocks ?rows ?ids =
      Inr ([\<lparr>offer_id = ''a'', stock = 100\<rparr>, \<lparr>offer_id = ''b'', stock = 0\<rparr>,
            \<lparr>offer_id = ''c'', stock = 7\<rparr>, \<lparr>offer_id = ''d'', stock = 0\<rparr>], [''d''])"
    by (simp add: stocks_simps py_int_simps Let_def)
  have run': "market_create_stocks ''2024-01-01T00:00:00Z'' ?rows ?ids ''77'' =
   Inr ([\<lparr>sku = ''a'', warehouseId = ''77'',
           items = [\<lparr>item_count = 100, item_type = ''FIT'',
                     updatedAt = ''2024-01-01T00:00:00Z''\<rparr>]\<rparr>,
         \<lparr>sku = ''b'', warehouseId = ''77'',
           items = [\<lparr>item_count = 0, item_type = ''FIT'',
                     updatedAt = ''2024-01-01T00:00:00Z''\<rparr>]\<rparr>,
         \<lparr>sku = ''c'', warehouseId = ''77'',
           items = [\<lparr>item_count = 7, item_type = ''FIT'',
                     updatedAt = ''2024-01-01T00:00:00Z''\<rparr>]\<rparr>,
         \<lparr>sku = ''d'', warehouseId = ''77'',
           items = [\<lparr>item_count = 0, item_type = ''FIT'',
                     updatedAt = ''2024-01-01T00:00:00Z''\<rparr>]\<rparr>], [''d''])"
    by (simp add: stocks_simps py_int_simps Let_def)
  have q: "quantity_mapped ?rows ''c'' 7"
    by (simp add: quantity_mapped_def code_def py_int_simps)
  from create_stocks_quantity_mapping [OF d wf, of "''2024-01-01T00:00:00Z''" "''77''"]
  show ?thesis
    by (simp only: run run' d q simp_thms)
qed

section \<open>Matched records first, then the fallback\<close>

text \<open>
  C9. For a duplicate-free offer-id list (and matched quantities that resolve), the
  output of both \<open>create_stocks\<close> is: the records of the matched rows, in inventory
  order, the first row of a code winning; then the zero records of the unmatched offer
  ids, in the order of the offer-id list.
\<close>

theorem create_stocks_matched_then_fallback:
  assumes "distinct offer_ids"
    and "\<forall>w \<in> set (matched_rows watch_remnants offer_ids).
           \<exists>n. resolve_quantity (kolichestvo w) = Inr n"
  shows
    "seller_create_stocks watch_remnants offer_ids =
       Inr (map (\<lambda>w. \<lparr>offer_id = code w, stock = stock_of w\<rparr>)
              (matched_rows watch_remnants offer_ids) @
            map (\<lambda>i. \<lparr>offer_id = i, stock = 0\<rparr>) (unmatched_ids watch_remnants offer_ids),
            unmatched_ids watch_remnants offer_ids) \<and>
     market_create_stocks date watch_remnants offer_ids warehouse_id =
       Inr (map (\<lambda>w. \<lparr>sku = code w, warehouseId = warehouse_id,
                       items = [\<lparr>item_count = stock_of w, item_type = ''FIT'',
                                 updatedAt = date\<rparr>]\<rparr>)
              (matched_rows watch_remnants offer_ids) @
            map (\<lambda>i. \<lparr>sku = i, warehouseId = warehouse_id,
                       items = [\<lparr>item_count = 0, item_type = ''FIT'', updatedAt = date\<rparr>]\<rparr>)
              (unmatched_ids watch_remnants offer_ids),
            unmatched_ids watch_remnants offer_ids)"
  unfolding seller_create_stocks_def market_create_stocks_def
  by (simp only: create_stocks_matched [OF assms] simp_thms)

theorem create_stocks_matched_then_fallback_witness:
  "distinct [''3'', ''2'', ''1'', ''4''] \<and>
   matched_rows
     [\<lparr>kod = StrV ''1'', kolichestvo = StrV ''5'', tsena = ''1000.00''\<rparr>,
      \<lparr>kod = StrV ''2'', kolichestvo = StrV ''>10'', tsena = ''2000.00''\<rparr>,
      \<lparr>kod = StrV ''1'', kolichestvo = StrV ''8'', tsena = ''1000.00''\<rparr>,
      \<lparr>kod = StrV ''9'', kolichestvo = StrV ''x'', tsena = ''''\<rparr>]
     [''3'', ''2'', ''1'', ''4''] =
     [\<lparr>kod = StrV ''1'', kolichestvo = StrV ''5'', tsena = ''1000.00''\<rparr>,
      \<lparr>kod = StrV ''2'', kolichestvo = StrV ''>10'', tsena = ''2000.00''\<rparr>] \<and>
   seller_create_stocks
     [\<lparr>kod = StrV ''1'', kolichestvo = StrV ''5'', tsena = ''1000.00''\<rparr>,
      \<lparr>kod = StrV ''2'', kolichestvo = StrV ''>10'', tsena = ''2000.00''\<rparr>,
      \<lparr>kod = StrV ''1'', kolichestvo = StrV ''8'', tsena = ''1000.00''\<rparr>,
      \<lparr>kod = StrV ''9'', kolichestvo = StrV ''x'', tsena = ''''\<rparr>]
     [''3'', ''2'', ''1'', ''4''] =
   Inr ([\<lparr>offer_id = ''1'', stock = 5\<rparr>, \<lparr>offer_id = ''2'', stock = 100\<rparr>,
         \<lparr>offer_id = ''3'', stock = 0\<rparr>, \<lparr>offer_id = ''4'', stock = 0\<rparr>],
        [''3'', ''4'']) \<and>
   market_create_stocks ''2024-01-01T00:00:00Z''
     [\<lparr>kod = StrV ''1'', kolichestvo = StrV ''5'', tsena = ''1000.00''\<rparr>,
      \<lparr>kod = StrV ''2'', kolichestvo = StrV ''>10'', tsena = ''2000.00''\<rparr>,
      \<lparr>kod = StrV ''1'', kolichestvo = StrV ''8'', tsena = ''1000.00''\<rparr>,
      \<lparr>kod = StrV ''9'', kolichestvo = StrV ''x'', tsena = ''''\<rparr>]
     [''3'', ''2'', ''1'', ''4''] ''77'' =
   Inr ([\<lparr>sku = ''1'', warehouseId = ''77'',
           items = [\<lparr>item_count = 5, item_type = ''FIT'',
                     updatedAt = ''2024-01-01T00:00:00Z''\<rparr>]\<rparr>,
         \<lparr>sku = ''2'', warehouseId = ''77'',
           items = [\<lparr>item_count = 100, item_type = ''FIT'',
                     updatedAt = ''2024-01-01T00:00:00Z''\<rparr>]\<rparr>,
         \<lparr>sku = ''3'', warehouseId = ''77'',
           items = [\<lparr>item_count = 0, item_type = ''FIT'',
                     updatedAt = ''2024-01-01T00:00:00Z''\<rparr>]\<rparr>,
         \<lparr>sku = ''4'', warehouseId = ''77'',
           items = [\<lparr>item_count = 0, item_type = ''FIT'',
                     updatedAt = ''2024-01-01T00:00:00Z''\<rparr>]\<rparr>],
        [''3'', ''4''])"
proof -
  let ?rows = "[\<lparr>kod = StrV ''1'', kolichestvo = StrV ''5'', tsena = ''1000.00''\<rparr>,
      \<lparr>kod = StrV ''2'', kolichestvo = StrV ''>10'', tsena = ''2000.00''\<rparr>,
      \<lparr>kod = StrV ''1'', kolichestvo = StrV ''8'', tsena = ''1000.00''\<rparr>,
      \<lparr>kod = StrV ''9'', kolichestvo = StrV ''x'', tsena = ''''\<rparr>]"
  let ?ids = "[''3'', ''2'', ''1'', ''4'']"
  have d: "distinct ?ids" by simp
  have m: "matched_rows ?rows ?ids =
     [\<lparr>kod = StrV ''1'', kolichestvo = StrV ''5'', tsena = ''1000.00''\<rparr>,
      \<lparr>kod = StrV ''2'', kolichestvo = StrV ''>10'', tsena = ''2000.00''\<rparr>]"
    by (simp add: matched_rows_def code_def)
  have u: "unmatched_ids ?rows ?ids = [''3'', ''4'']"
    by (simp add: unmatched_ids_def code_def)
  have wf: "\<forall>w \<in> set (matched_rows ?rows ?ids). \<exists>n. resolve_quantity (kolichestvo w) = Inr n"
    unfolding m by (simp add: resolve_quantity_def py_int_simps)
  from create_stocks_matched_then_fallback [OF d wf, of "''2024-01-01T00:00:00Z''" "''77''"]
  show ?thesis
    unfolding m u by (simp add: d code_def stock_of_def resolve_quantity_def py_int_simps)
qed

section \<open>create\_prices in closed form\<close>

lemma price_conversion_prefix:
  "price_conversion s = filter is_digit (takeWhile (\<lambda>c. c \<noteq> CHR ''.'') s)"
  unfolding price_conversion_def re_sub_non_digits_def fst_split is_digit_def ..

lemma price_conversion_is_digit: "c \<in> set (price_conversion s) \<Longrightarrow> is_digit c"
  by (simp add: price_conversion_prefix)

lemma is_digit_not_space: "is_digit c \<Longrightarrow> \<not> is_space c"
  by (auto simp: is_digit_def is_space_def)

lemma is_digit_not_sign: "is_digit c \<Longrightarrow> c \<noteq> CHR ''-'' \<and> c \<noteq> CHR ''+'' \<and> c \<noteq> CHR ''_''"
  by (auto simp: is_digit_def)

lemma dropWhile_space_digits: "\<forall>c \<in> set s. is_digit c \<Longrightarrow> dropWhile is_space s = s"
  by (cases s) (auto dest: is_digit_not_space)

lemma strip_digits:
  assumes "\<forall>c \<in> set s. is_digit c"
  shows "strip s = s"
proof -
  from assms have "\<forall>c \<in> set (rev s). is_digit c" by simp
  then have "dropWhile is_space (rev s) = rev s" by (rule dropWhile_space_digits)
  with dropWhile_space_digits [OF assms] show ?thesis by (simp add: strip_def)
qed

lemma int_digits_all:
  "\<forall>c \<in> set cs. is_digit c \<Longrightarrow>
     int_digits acc cs = Some (foldl (\<lambda>a c. 10 * a + digit_val c) acc cs)"
proof (induction acc cs rule: int_digits.induct)
  case (1 acc)
  show ?case by simp
next
  case (2 acc c)
  then show ?case by simp
next
  case (3 acc c d cs)
  from "3.prems" have c: "is_digit c" and rest: "\<forall>x \<in> set (d # cs). is_digit x" by simp_all
  from c have ne: "c \<noteq> CHR ''_''" by (simp add: is_digit_not_sign)
  from "3.IH"(2) [OF ne c rest] ne c show ?case by simp
qed

lemma is_digit_ascii: "is_digit c \<Longrightarrow> of_char c < (128 :: nat)"
  by (auto simp: is_digit_def)

lemma decimal_and_space_to_ascii_digits:
  "\<forall>c \<in> set s. is_digit c \<Longrightarrow> decimal_and_space_to_ascii s = s"
  by (simp add: decimal_and_space_to_ascii_def list_all_iff is_digit_ascii)

lemma filter_is_digit_digits: "\<forall>c \<in> set s. is_digit c \<Longrightarrow> filter is_digit s = s"
  by (simp add: filter_id_conv)

lemma int_of_str_digits:
  assumes "\<forall>c \<in> set s. is_digit c" and "s \<noteq> []" and "length s \<le> 4300"
  shows "int_of_str s = Inr (int (decimal s))"
proof -
  from assms(2) obtain c cs where s: "s = c # cs" by (cases s) auto
  with assms(1) have c: "is_digit c" and cs: "\<forall>x \<in> set cs. is_digit x" by simp_all
  from filter_is_digit_digits [OF assms(1)] assms(3) s
  have short: "\<not> 4300 < length (filter is_digit (c # cs))" by simp
  have "int_digits (digit_val c) cs = Some (decimal (c # cs))"
    using int_digits_all [OF cs, of "digit_val c"] by (simp add: decimal_def)
  with c short have lit: "int_literal (c # cs) = Some (decimal (c # cs))"
    unfolding int_literal_def by simp
  from strip_digits [OF assms(1)] decimal_and_space_to_ascii_digits [OF assms(1)] s
  have "strip (decimal_and_space_to_ascii s) = c # cs" by simp
  with lit is_digit_not_sign [OF c] s show ?thesis by (simp add: int_of_str_def)
qed

lemma int_of_str_too_long:
  assumes "\<forall>c \<in> set s. is_digit c" and "4300 < length s"
  shows "int_of_str s = Inl ValueError"
proof -
  from assms(2) obtain c cs where s: "s = c # cs" by (cases s) auto
  with assms(1) have c: "is_digit c" by simp
  from filter_is_digit_digits [OF assms(1)] assms(2) s
  have "4300 < length (filter is_digit (c # cs))" by simp
  then have lit: "int_literal (c # cs) = None"
    unfolding int_literal_def by simp
  from strip_digits [OF assms(1)] decimal_and_space_to_ascii_digits [OF assms(1)] s
  have "strip (decimal_and_space_to_ascii s) = c # cs" by simp
  with lit is_digit_not_sign [OF c] s show ?thesis by (simp add: int_of_str_def)
qed

lemma int_of_str_empty: "int_of_str [] = Inl ValueError"
  by (simp add: int_of_str_def decimal_and_space_to_ascii_def strip_def)

lemma int_of_str_price_conversion:
  "int_of_str (price_conversion t) =
     (if price_conversion t \<noteq> [] \<and> length (price_conversion t) \<le> 4300
      then Inr (int (decimal (price_conversion t)))
      else Inl ValueError)"
proof -
  have digits: "\<forall>c \<in> set (price_conversion t). is_digit c"
    by (simp add: price_conversion_is_digit)
  show ?thesis
  proof (cases "price_conversion t = []")
    case True
    then show ?thesis by (simp add: int_of_str_empty)
  next
    case False
    show ?thesis
    proof (cases "length (price_conversion t) \<le> 4300")
      case True
      from int_of_str_digits [OF digits False True] False True show ?thesis by simp
    next
      case False
      then have "4300 < length (price_conversion t)" by simp
      from int_of_str_too_long [OF digits this] False show ?thesis by simp
    qed
  qed
qed

lemma seller_create_prices_loop_closed:
  "seller_create_prices_loop rows ids acc =
     (acc @ map (\<lambda>w. \<lparr>auto_action_enabled = ''UNKNOWN'', currency_code = ''RUB'',
                       price_offer_id = code w, old_price = ''0'',
                       price = price_conversion (tsena w)\<rparr>)
              (filter (\<lambda>w. code w \<in> set ids) rows), ids)"
  by (induction rows arbitrary: acc) (simp_all add: code_def)

lemma market_create_prices_loop_closed:
  "market_create_prices_loop rows ids acc =
     (if \<forall>w \<in> set rows. code w \<in> set ids \<longrightarrow>
           price_conversion (tsena w) \<noteq> [] \<and> length (price_conversion (tsena w)) \<le> 4300
      then Inr (acc @ map (\<lambda>w. \<lparr>price_id = code w,
                   price_value = \<lparr>amount = int (decimal (price_conversion (tsena w))),
                                  currencyId = ''RUR''\<rparr>\<rparr>)
              (filter (\<lambda>w. code w \<in> set ids) rows), ids)
      else Inl ValueError)"
proof (induction rows arbitrary: acc)
  case Nil
  show ?case by simp
next
  case (Cons w ws)
  show ?case
  proof (cases "code w \<in> set ids")
    case False
    then show ?thesis using Cons.IH [of acc] by (simp add: code_def)
  next
    case True
    show ?thesis
    proof (cases "price_conversion (tsena w) \<noteq> [] \<and>
        length (price_conversion (tsena w)) \<le> 4300")
      case False
      then have "int_of_str (price_conversion (tsena w)) = Inl ValueError"
        by (simp add: int_of_str_price_conversion)
      then have "market_create_prices_loop (w # ws) ids acc = Inl ValueError"
        using True by (simp add: code_def)
      moreover from False True have "\<not> (\<forall>v \<in> set (w # ws). code v \<in> set ids \<longrightarrow>
          price_conversion (tsena v) \<noteq> [] \<and> length (price_conversion (tsena v)) \<le> 4300)"
        by auto
      ultimately show ?thesis by (simp only: if_False)
    next
      case ok: True
      then have "int_of_str (price_conversion (tsena w)) =
          Inr (int (decimal (price_conversion (tsena w))))"
        by (simp add: int_of_str_price_conversion)
      then have "market_create_prices_loop (w # ws) ids acc =
          market_create_prices_loop ws ids (acc @ [\<lparr>price_id = code w,
                   price_value = \<lparr>amount = int (decimal (price_conversion (tsena w))),
                                  currencyId = ''RUR''\<rparr>\<rparr>])"
        using True by (simp add: code_def)
      with ok True show ?thesis
        using Cons.IH [of "acc @ [\<lparr>price_id = code w,
                   price_value = \<lparr>amount = int (decimal (price_conversion (tsena w))),
                                  currencyId = ''RUR''\<rparr>\<rparr>]"]
        by simp
    qed
  qed
qed

section \<open>The price builders\<close>

text \<open>
  C8, as amended. The seller \<open>create_prices\<close> returns, for every row list and offer-id
  list, one record per row whose code is in the list, in row order, and nothing else.
  The market \<open>create_prices\<close> returns the same kind of list when \<open>int\<close> accepts the
  converted price of every such row: the price has at least one digit before its first
  dot (\<open>price_conversion\<close> is not empty) and at most 4300 of them (the interpreter's
  limit for \<open>int\<close> of a string). Otherwise it raises \<open>ValueError\<close>. Neither changes the
  offer-id list.
\<close>

theorem create_prices_one_record_per_matching_row:
  "seller_create_prices watch_remnants offer_ids =
     (map (\<lambda>w. \<lparr>auto_action_enabled = ''UNKNOWN'', currency_code = ''RUB'',
                 price_offer_id = code w, old_price = ''0'',
                 price = price_conversion (tsena w)\<rparr>)
        (filter (\<lambda>w. code w \<in> set offer_ids) watch_remnants), offer_ids) \<and>
   market_create_prices watch_remnants offer_ids =
     (if \<forall>w \<in> set watch_remnants.
           code w \<in> set offer_ids \<longrightarrow>
             price_conversion (tsena w) \<noteq> [] \<and> length (price_conversion (tsena w)) \<le> 4300
      then Inr (map (\<lambda>w. \<lparr>price_id = code w,
                    price_value = \<lparr>amount = int (decimal (price_conversion (tsena w))),
                                   currencyId = ''RUR''\<rparr>\<rparr>)
                  (filter (\<lambda>w. code w \<in> set offer_ids) watch_remnants), offer_ids)
      else Inl ValueError)"
  unfolding seller_create_prices_def market_create_prices_def
    seller_create_prices_loop_closed market_create_prices_loop_closed
  by simp

theorem create_prices_one_record_per_matching_row_witness:
  "seller_create_prices
     [\<lparr>kod = IntV 1, kolichestvo = StrV ''5'', tsena = ''1'000.00 rub.''\<rparr>,
      \<lparr>kod = IntV 5, kolichestvo = StrV ''5'', tsena = ''''\<rparr>,
      \<lparr>kod = IntV 1, kolichestvo = StrV ''5'', tsena = ''990.50''\<rparr>]
     [''1'', ''2''] =
     ([\<lparr>auto_action_enabled = ''UNKNOWN'', currency_code = ''RUB'',
        price_offer_id = ''1'', old_price = ''0'', price = ''1000''\<rparr>,
       \<lparr>auto_action_enabled = ''UNKNOWN'', currency_code = ''RUB'',
        price_offer_id = ''1'', old_price = ''0'', price = ''990''\<rparr>], [''1'', ''2'']) \<and>
   market_create_prices
     [\<lparr>kod = IntV 1, kolichestvo = StrV ''5'', tsena = ''1'000.00 rub.''\<rparr>,
      \<lparr>kod = IntV 5, kolichestvo = StrV ''5'', tsena = ''''\<rparr>,
      \<lparr>kod = IntV 1, kolichestvo = StrV ''5'', tsena = ''990.50''\<rparr>]
     [''1'', ''2''] =
     Inr ([\<lparr>price_id = ''1'', price_value = \<lparr>amount = 1000, currencyId = ''RUR''\<rparr>\<rparr>,
           \<lparr>price_id = ''1'', price_value = \<lparr>amount = 990, currencyId = ''RUR''\<rparr>\<rparr>],
          [''1'', ''2''])"
  using create_prices_one_record_per_matching_row
    [of "[\<lparr>kod = IntV 1, kolichestvo = StrV ''5'', tsena = ''1'000.00 rub.''\<rparr>,
          \<lparr>kod = IntV 5, kolichestvo = StrV ''5'', tsena = ''''\<rparr>,
          \<lparr>kod = IntV 1, kolichestvo = StrV ''5'', tsena = ''990.50''\<rparr>]" "[''1'', ''2'']"]
  by (simp add: code_def str_int_def str_nat.simps price_conversion_def
      re_sub_non_digits_def decimal_def digit_val_def)

text \<open>
  The statement of C8 without the condition on the prices fails: for a matched row with
  the empty price, and for one with a price of 4301 digits, the market builder raises
  and returns no record.
\<close>

theorem create_prices_market_raises_counterexample:
  "market_create_prices
     [\<lparr>kod = StrV ''1'', kolichestvo = StrV ''5'', tsena = ''''\<rparr>] [''1''] = Inl ValueError \<and>
   market_create_prices
     [\<lparr>kod = StrV ''1'', kolichestvo = StrV ''5'', tsena = replicate 4301 (CHR ''1'')\<rparr>]
     [''1''] = Inl ValueError"
proof -
  have short: "price_conversion '''' = []"
    by (simp add: price_conversion_def re_sub_non_digits_def)
  have long: "price_conversion (replicate 4301 (CHR ''1'')) = replicate 4301 (CHR ''1'')"
    by (simp add: price_conversion_prefix is_digit_def takeWhile_replicate)
  show ?thesis
    unfolding market_create_prices_def market_create_prices_loop_closed
    by (simp add: code_def short long)
qed

lemma price_conversion_empty:
  assumes "\<forall>c \<in> set (takeWhile (\<lambda>c. c \<noteq> CHR ''.'') s). c \<notin> set ''0123456789''"
  shows "price_conversion s = []"
  unfolding price_conversion_prefix is_digit_def filter_empty_conv using assms by blast

text \<open>
  C10. On a row whose code is an offer id and whose price has no digit before its first
  dot, the two price builders part: the market one raises \<open>ValueError\<close> (\<open>int\<close> of the
  empty string), the seller one returns, and its record for that row has the empty
  string as price.
\<close>

theorem create_prices_diverge_on_digitless_price:
  assumes "w \<in> set watch_remnants" and "code w \<in> set offer_ids"
    and "\<forall>c \<in> set (takeWhile (\<lambda>c. c \<noteq> CHR ''.'') (tsena w)). c \<notin> set ''0123456789''"
  shows "market_create_prices watch_remnants offer_ids = Inl ValueError \<and>
         (\<exists>prices. seller_create_prices watch_remnants offer_ids = (prices, offer_ids) \<and>
            (\<exists>p \<in> set prices. price_offer_id p = code w \<and> price p = ''''))"
proof -
  from assms(3) have empty: "price_conversion (tsena w) = []"
    by (rule price_conversion_empty)
  with assms(1,2) have "\<not> (\<forall>w \<in> set watch_remnants.
      code w \<in> set offer_ids \<longrightarrow>
        price_conversion (tsena w) \<noteq> [] \<and> length (price_conversion (tsena w)) \<le> 4300)"
    by blast
  then have market: "market_create_prices watch_remnants offer_ids = Inl ValueError"
    unfolding market_create_prices_def market_create_prices_loop_closed by simp
  let ?p = "\<lparr>auto_action_enabled = ''UNKNOWN'', currency_code = ''RUB'',
             price_offer_id = code w, old_price = ''0'', price = price_conversion (tsena w)\<rparr>"
  let ?prices = "map (\<lambda>w. \<lparr>auto_action_enabled = ''UNKNOWN'', currency_code = ''RUB'',
                 price_offer_id = code w, old_price = ''0'',
                 price = price_conversion (tsena w)\<rparr>)
        (filter (\<lambda>w. code w \<in> set offer_ids) watch_remnants)"
  have run: "seller_create_prices watch_remnants offer_ids = (?prices, offer_ids)"
    unfolding seller_create_prices_def seller_create_prices_loop_closed by simp
  from assms(1,2) have "?p \<in> set ?prices" by auto
  moreover have "price_offer_id ?p = code w \<and> price ?p = ''''" using empty by simp
  ultimately have "\<exists>p \<in> set ?prices. price_offer_id p = code w \<and> price p = ''''"
    by (rule bexI [rotated])
  with market run show ?thesis by blast
qed

theorem create_prices_diverge_on_digitless_price_witness:
  "market_create_prices
     [\<lparr>kod = IntV 7, kolichestvo = StrV ''3'', tsena = ''rub. 100''\<rparr>] [''7''] =
     Inl ValueError \<and>
   seller_create_prices
     [\<lparr>kod = IntV 7, kolichestvo = StrV ''3'', tsena = ''rub. 100''\<rparr>] [''7''] =
     ([\<lparr>auto_action_enabled = ''UNKNOWN'', currency_code = ''RUB'',
        price_offer_id = ''7'', old_price = ''0'', price = ''''\<rparr>], [''7''])"
proof -
  let ?w = "\<lparr>kod = IntV 7, kolichestvo = StrV ''3'', tsena = ''rub. 100''\<rparr>"
  have a: "?w \<in> set [?w]" by simp
  have b: "code ?w \<in> set [''7'']" by (simp add: code_def str_int_def str_nat.simps)
  have c: "\<forall>c \<in> set (takeWhile (\<lambda>c. c \<noteq> CHR ''.'') (tsena ?w)). c \<notin> set ''0123456789''"
    by simp
  have s: "seller_create_prices [?w] [''7''] =
     ([\<lparr>auto_action_enabled = ''UNKNOWN'', currency_code = ''RUB'',
        price_offer_id = ''7'', old_price = ''0'', price = ''''\<rparr>], [''7''])"
    by (simp add: seller_create_prices_def str_int_def str_nat.simps price_conversion_def
        re_sub_non_digits_def)
  from create_prices_diverge_on_digitless_price [OF a b c] s show ?thesis by blast
qed

section \<open>The traces of the entry points\<close>

lemma update_all_trace:
  "\<exists>sent. snd (update_all request answers batches trace) = trace @ map request sent"
proof (induction batches arbitrary: trace)
  case Nil
  have "snd (update_all request answers [] trace) = trace @ map request []" by simp
  then show ?case by blast
next
  case (Cons some batches)
  show ?case
  proof (cases "answers (length trace)")
    case (Some e)
    then have "snd (update_all request answers (some # batches) trace) =
        trace @ map request [some]" by simp
    then show ?thesis by blast
  next
    case None
    from Cons.IH [of "trace @ [request some]"] obtain sent where
      "snd (update_all request answers batches (trace @ [request some])) =
         (trace @ [request some]) @ map request sent" by blast
    with None have "snd (update_all request answers (some # batches) trace) =
        trace @ map request (some # sent)" by simp
    then show ?thesis by blast
  qed
qed

lemma update_all_empty: "update_all request answers [] trace = (None, trace)"
  by simp

lemma create_stocks_loop_rest:
  assumes "distinct ids" and "create_stocks_loop mk rows ids acc = Inr (stocks, rest)"
  shows "set rest = set ids - code ` set rows"
  using assms
proof (induction rows arbitrary: ids acc)
  case Nil
  then show ?case by simp
next
  case (Cons w ws)
  show ?case
  proof (cases "code w \<in> set ids")
    case False
    with Cons.prems(2) have "create_stocks_loop mk ws ids acc = Inr (stocks, rest)"
      by (simp add: code_def)
    from Cons.IH [OF Cons.prems(1) this] False show ?thesis by auto
  next
    case True
    with Cons.prems(2) obtain n where
      "create_stocks_loop mk ws (remove1 (code w) ids) (acc @ [mk (code w) n]) =
         Inr (stocks, rest)"
      by (auto simp: code_def Let_def split: sum.splits if_splits)
    moreover have "distinct (remove1 (code w) ids)" using Cons.prems(1) by simp
    ultimately have "set rest = set (remove1 (code w) ids) - code ` set ws"
      by (rule Cons.IH [rotated])
    with Cons.prems(1) show ?thesis by auto
  qed
qed

lemma create_stocks_rest:
  assumes "distinct ids" and "create_stocks mk rows ids = Inr (stocks, rest)"
  shows "set rest = set ids - code ` set rows"
proof -
  from assms(2) obtain s where "create_stocks_loop mk rows ids [] = Inr (s, rest)"
    by (auto simp: create_stocks_def split: sum.splits prod.splits)
  with assms(1) show ?thesis by (rule create_stocks_loop_rest)
qed

lemma seller_create_prices_after_stocks:
  assumes "distinct ids" and "seller_create_stocks rows ids = Inr (stocks, rest)"
  shows "seller_create_prices rows rest = ([], rest)"
proof -
  from assms have "set rest = set ids - code ` set rows"
    unfolding seller_create_stocks_def by (rule create_stocks_rest)
  then have "filter (\<lambda>w. code w \<in> set rest) rows = []"
    by (auto simp: filter_empty_conv)
  then show ?thesis
    by (simp add: seller_create_prices_def seller_create_prices_loop_closed)
qed

lemma divide_empty: "divide_list [] 900 = Inr []"
  by (simp add: divide_list_def divide_from.simps)

text \<open>
  Whenever the fetched offer ids are duplicate-free and the \<open>try\<close> block of seller.py's
  \<open>main\<close> runs to its end, the prices it has built are the empty list and it has sent
  no price update.
\<close>

lemma seller_main_try_no_prices:
  assumes "fetched w client_id seller_token = Inr ids" and "distinct ids"
    and "seller_main_try w client_id seller_token = (Inr (stocks, prices), trace)"
  shows "prices = [] \<and> (\<forall>ev \<in> set trace. \<not> is_price_update ev)"
proof -
  from assms(3) assms(1) obtain rows rest batches tr rest' batches' where
    s: "seller_create_stocks rows ids = Inr (stocks, rest)" and
    tr: "update_all (UpdateStocks client_id) (reply w) batches [] = (None, tr)" and
    p: "seller_create_prices rows rest = (prices, rest')" and
    d: "divide_list prices 900 = Inr batches'" and
    u: "update_all (UpdatePrice client_id) (reply w) batches' tr = (None, trace)"
    by (auto simp: seller_main_try_def split: sum.splits prod.splits option.splits)
  from seller_create_prices_after_stocks [OF assms(2) s] p
  have prices: "prices = []" by simp
  with d u have res: "prices = [] \<and> trace = tr"
    by (simp add: divide_empty)
  from tr have "snd (update_all (UpdateStocks client_id) (reply w) batches []) = tr" by simp
  with update_all_trace [of "UpdateStocks client_id" "reply w" batches "[]"]
  obtain sent where "tr = map (UpdateStocks client_id) sent" by auto
  then have "\<forall>ev \<in> set tr. \<not> is_price_update ev" by auto
  with res show ?thesis by simp
qed

lemma market_account_no_prices:
  assumes "\<forall>ev \<in> set trace. \<not> is_price_update ev"
  shows "\<forall>ev \<in> set (snd (market_account w rows campaign_id warehouse_id token trace)).
           \<not> is_price_update ev"
proof -
  have sent: "\<And>batches. \<forall>ev \<in> set (snd (update_all (UpdateStocks campaign_id) (reply w)
      batches trace)). \<not> is_price_update ev"
  proof -
    fix batches
    from update_all_trace [of "UpdateStocks campaign_id" "reply w" batches trace]
    obtain sent where "snd (update_all (UpdateStocks campaign_id) (reply w) batches trace) =
        trace @ map (UpdateStocks campaign_id) sent" by blast
    with assms show "\<forall>ev \<in> set (snd (update_all (UpdateStocks campaign_id) (reply w)
      batches trace)). \<not> is_price_update ev" by auto
  qed
  show ?thesis
    using assms sent
    by (auto simp: market_account_def Let_def split: sum.splits prod.splits option.splits)
       (metis snd_conv)+
qed

text \<open>No run of market.py's \<open>main\<close> sends a price update.\<close>

lemma market_main_never_updates_prices:
  "\<forall>ev \<in> set (trace_of (market_main w)). \<not> is_price_update ev"
proof -
  have one: "\<And>rows c wh t. \<forall>ev \<in> set (snd (market_account w rows c wh t [])).
      \<not> is_price_update ev"
    by (rule market_account_no_prices) simp
  have two: "\<And>rows t f d wf wd.
      \<forall>ev \<in> set (snd (market_main_try w rows t f d wf wd)). \<not> is_price_update ev"
  proof -
    fix rows t f d wf wd
    show "\<forall>ev \<in> set (snd (market_main_try w rows t f d wf wd)). \<not> is_price_update ev"
    proof (cases "market_account w rows f wf t []")
      case (Pair r tr)
      with one [of rows f wf t] have tr: "\<forall>ev \<in> set tr. \<not> is_price_update ev" by simp
      show ?thesis
      proof (cases r)
        case None
        with Pair market_account_no_prices [OF tr, of w rows d wd t] show ?thesis
          by (simp add: market_main_try_def)
      next
        case (Some e)
        with Pair tr show ?thesis by (simp add: market_main_try_def)
      qed
    qed
  qed
  show ?thesis
    using two
    by (auto simp: market_main_def split: option.splits sum.splits prod.splits)
       (metis snd_conv)+
qed

section \<open>The entry points at work\<close>

lemmas main_simps =
  seller_main_def seller_main_try_def market_main_def market_main_try_def
  market_account_def example_world_def divide_list_def divide_from.simps
  seller_create_prices_def market_create_prices_def price_conversion_def
  re_sub_non_digits_def

text \<open>
  C2, at the failing run. seller.py's \<open>main\<close> fetches the offer ids ["1"]; the feed has
  a row for "1". \<open>create_stocks\<close> removes "1" from the list, \<open>create_prices\<close> reads
  the emptied list, and \<open>main\<close> builds the prices [] and sends no price update. On the
  fetched list \<open>create_prices\<close> gives one record.
\<close>

theorem seller_main_prices_from_emptied_list:
  "seller_main_try example_world ''c'' ''t'' =
     (Inr ([\<lparr>offer_id = ''1'', stock = 5\<rparr>], []),
      [UpdateStocks ''c'' [\<lparr>offer_id = ''1'', stock = 5\<rparr>]]) \<and>
   seller_main example_world =
     Returned [UpdateStocks ''c'' [\<lparr>offer_id = ''1'', stock = 5\<rparr>]] \<and>
   seller_create_prices
     [\<lparr>kod = StrV ''1'', kolichestvo = StrV ''5'', tsena = ''1000.00''\<rparr>] [''1''] =
     ([\<lparr>auto_action_enabled = ''UNKNOWN'', currency_code = ''RUB'',
        price_offer_id = ''1'', old_price = ''0'', price = ''1000''\<rparr>], [''1''])"
  by (simp add: main_simps stocks_simps py_int_simps Let_def)

text \<open>
  C3, at the failing run. With every variable set and every request succeeding,
  market.py's \<open>main\<close> sends the stock updates of the two accounts and no price update:
  the coroutines of \<open>upload_prices\<close> are never run. Run, the first one would send one.
\<close>

theorem market_main_sends_no_price_update:
  "market_main example_world =
     Returned
       [UpdateStocks ''f''
          [\<lparr>sku = ''1'', warehouseId = ''wf'',
            items = [\<lparr>item_count = 5, item_type = ''FIT'',
                      updatedAt = ''2024-01-01T00:00:00Z''\<rparr>]\<rparr>],
        UpdateStocks ''d''
          [\<lparr>sku = ''1'', warehouseId = ''wd'',
            items = [\<lparr>item_count = 5, item_type = ''FIT'',
                      updatedAt = ''2024-01-01T00:00:00Z''\<rparr>]\<rparr>]] \<and>
   await (market_upload_prices example_world
       [\<lparr>kod = StrV ''1'', kolichestvo = StrV ''5'', tsena = ''1000.00''\<rparr>] ''f'' ''t'') [] =
     (Inr [\<lparr>price_id = ''1'', price_value = \<lparr>amount = 1000, currencyId = ''RUR''\<rparr>\<rparr>],
      [UpdatePrice ''f''
         [\<lparr>price_id = ''1'', price_value = \<lparr>amount = 1000, currencyId = ''RUR''\<rparr>\<rparr>]])"
  by (simp add: main_simps stocks_simps py_int_simps Let_def await_def
      market_upload_prices_def)

text \<open>
  The statement of C4 for every exception fails: with no environment variable set,
  \<open>EnvError\<close> leaves both entry points and nothing is printed.
\<close>

theorem main_env_error_propagates_counterexample:
  "seller_main (example_world\<lparr>environ := Map.empty\<rparr>) = Propagated EnvError [] \<and>
   market_main (example_world\<lparr>environ := Map.empty\<rparr>) = Propagated EnvError []"
  by (simp add: seller_main_def market_main_def example_world_def)

text \<open>
  In market.py \<open>download_stock()\<close> is called before the \<open>try\<close>: its exception leaves
  \<open>main\<close>. In seller.py the call stands inside the \<open>try\<close>.
\<close>

lemma market_main_feed_failure_propagates:
  "market_main (example_world\<lparr>feed := Inl ConnectionError\<rparr>) = Propagated ConnectionError []"
  by (simp add: market_main_def example_world_def)

lemma except_message_generic:
  "e \<noteq> ReadTimeout \<Longrightarrow> e \<noteq> ConnectionError \<Longrightarrow> except_message e = GenericMessage e"
  by (cases e) simp_all

text \<open>
  C4, as amended. When the environment variables are set, seller.py's \<open>main\<close> returns;
  an exception \<open>e\<close> of its \<open>try\<close> block (the fetch of the offer ids, the download of
  the feed, the builders, the update requests) ends the block, and the message of
  \<open>e\<close> is the last thing printed. The same holds for market.py's \<open>main\<close> once the
  feed is downloaded. A missing environment variable leaves either \<open>main\<close> as
  \<open>EnvError\<close>. The message is the timeout text for \<open>ReadTimeout\<close>, the connection text
  for \<open>ConnectionError\<close>, and the generic text for everything else.
\<close>

theorem main_catches_exceptions_of_try_block:
  "(environ w ''SELLER_TOKEN'' = Some seller_token \<and> environ w ''CLIENT_ID'' = Some client_id \<longrightarrow>
      (\<exists>trace. seller_main w = Returned trace \<and>
         (\<forall>e. fst (seller_main_try w client_id seller_token) = Inl e \<longrightarrow>
            trace = snd (seller_main_try w client_id seller_token) @
                    [Print (except_message e)])) \<and>
      (\<forall>e. fetched w client_id seller_token = Inl e \<longrightarrow>
         seller_main w = Returned [Print (except_message e)]) \<and>
      (\<forall>e ids. fetched w client_id seller_token = Inr ids \<and> feed w = Inl e \<longrightarrow>
         seller_main w = Returned [Print (except_message e)])) \<and>
   (environ w ''SELLER_TOKEN'' = None \<or> environ w ''CLIENT_ID'' = None \<longrightarrow>
      seller_main w = Propagated EnvError []) \<and>
   (environ w ''MARKET_TOKEN'' = Some market_token \<and>
    environ w ''FBS_ID'' = Some campaign_fbs_id \<and>
    environ w ''DBS_ID'' = Some campaign_dbs_id \<and>
    environ w ''WAREHOUSE_FBS_ID'' = Some warehouse_fbs_id \<and>
    environ w ''WAREHOUSE_DBS_ID'' = Some warehouse_dbs_id \<and>
    feed w = Inr watch_remnants \<longrightarrow>
      (\<exists>trace. market_main w = Returned trace \<and>
         (\<forall>e. fst (market_main_try w watch_remnants market_token campaign_fbs_id
                    campaign_dbs_id warehouse_fbs_id warehouse_dbs_id) = Some e \<longrightarrow>
            trace = snd (market_main_try w watch_remnants market_token campaign_fbs_id
                           campaign_dbs_id warehouse_fbs_id warehouse_dbs_id) @
                    [Print (except_message e)])) \<and>
      (\<forall>e. fetched w campaign_fbs_id market_token = Inl e \<longrightarrow>
         market_main w = Returned [Print (except_message e)])) \<and>
   (environ w ''MARKET_TOKEN'' = None \<or> environ w ''FBS_ID'' = None \<or>
    environ w ''DBS_ID'' = None \<or> environ w ''WAREHOUSE_FBS_ID'' = None \<or>
    environ w ''WAREHOUSE_DBS_ID'' = None \<longrightarrow>
      market_main w = Propagated EnvError []) \<and>
   except_message ReadTimeout = TimeoutMessage \<and>
   except_message ConnectionError = ConnectionMessage ConnectionError \<and>
   (err \<noteq> ReadTimeout \<and> err \<noteq> ConnectionError \<longrightarrow> except_message err = GenericMessage err)"
proof -
  have seller: "environ w ''SELLER_TOKEN'' = Some seller_token \<and>
      environ w ''CLIENT_ID'' = Some client_id \<longrightarrow>
      (\<exists>trace. seller_main w = Returned trace \<and>
         (\<forall>e. fst (seller_main_try w client_id seller_token) = Inl e \<longrightarrow>
            trace = snd (seller_main_try w client_id seller_token) @
                    [Print (except_message e)])) \<and>
      (\<forall>e. fetched w client_id seller_token = Inl e \<longrightarrow>
         seller_main w = Returned [Print (except_message e)]) \<and>
      (\<forall>e ids. fetched w client_id seller_token = Inr ids \<and> feed w = Inl e \<longrightarrow>
         seller_main w = Returned [Print (except_message e)])"
  proof (intro impI conjI allI)
    assume env: "environ w ''SELLER_TOKEN'' = Some seller_token \<and>
      environ w ''CLIENT_ID'' = Some client_id"
    show "\<exists>trace. seller_main w = Returned trace \<and>
         (\<forall>e. fst (seller_main_try w client_id seller_token) = Inl e \<longrightarrow>
            trace = snd (seller_main_try w client_id seller_token) @
                    [Print (except_message e)])"
    proof (cases "seller_main_try w client_id seller_token")
      case (Pair r trace)
      with env show ?thesis by (cases r) (simp_all add: seller_main_def)
    qed
  next
    fix e
    assume "environ w ''SELLER_TOKEN'' = Some seller_token \<and>
      environ w ''CLIENT_ID'' = Some client_id"
      and "fetched w client_id seller_token = Inl e"
    then show "seller_main w = Returned [Print (except_message e)]"
      by (simp add: seller_main_def seller_main_try_def)
  next
    fix e ids
    assume "environ w ''SELLER_TOKEN'' = Some seller_token \<and>
      environ w ''CLIENT_ID'' = Some client_id"
      and "fetched w client_id seller_token = Inr ids \<and> feed w = Inl e"
    then show "seller_main w = Returned [Print (except_message e)]"
      by (simp add: seller_main_def seller_main_try_def)
  qed
  have seller_env: "environ w ''SELLER_TOKEN'' = None \<or> environ w ''CLIENT_ID'' = None \<longrightarrow>
      seller_main w = Propagated EnvError []"
    by (auto simp: seller_main_def split: option.splits)
  have market: "environ w ''MARKET_TOKEN'' = Some market_token \<and>
    environ w ''FBS_ID'' = Some campaign_fbs_id \<and>
    environ w ''DBS_ID'' = Some campaign_dbs_id \<and>
    environ w ''WAREHOUSE_FBS_ID'' = Some warehouse_fbs_id \<and>
    environ w ''WAREHOUSE_DBS_ID'' = Some warehouse_dbs_id \<and>
    feed w = Inr watch_remnants \<longrightarrow>
      (\<exists>trace. market_main w = Returned trace \<and>
         (\<forall>e. fst (market_main_try w watch_remnants market_token campaign_fbs_id
                    campaign_dbs_id warehouse_fbs_id warehouse_dbs_id) = Some e \<longrightarrow>
            trace = snd (market_main_try w watch_remnants market_token campaign_fbs_id
                           campaign_dbs_id warehouse_fbs_id warehouse_dbs_id) @
                    [Print (except_message e)])) \<and>
      (\<forall>e. fetched w campaign_fbs_id market_token = Inl e \<longrightarrow>
         market_main w = Returned [Print (except_message e)])"
  proof (intro impI conjI allI)
    assume env: "environ w ''MARKET_TOKEN'' = Some market_token \<and>
      environ w ''FBS_ID'' = Some campaign_fbs_id \<and>
      environ w ''DBS_ID'' = Some campaign_dbs_id \<and>
      environ w ''WAREHOUSE_FBS_ID'' = Some warehouse_fbs_id \<and>
      environ w ''WAREHOUSE_DBS_ID'' = Some warehouse_dbs_id \<and>
      feed w = Inr watch_remnants"
    show "\<exists>trace. market_main w = Returned trace \<and>
         (\<forall>e. fst (market_main_try w watch_remnants market_token campaign_fbs_id
                    campaign_dbs_id warehouse_fbs_id warehouse_dbs_id) = Some e \<longrightarrow>
            trace = snd (market_main_try w watch_remnants market_token campaign_fbs_id
                           campaign_dbs_id warehouse_fbs_id warehouse_dbs_id) @
                    [Print (except_message e)])"
    proof (cases "market_main_try w watch_remnants market_token campaign_fbs_id
                    campaign_dbs_id warehouse_fbs_id warehouse_dbs_id")
      case (Pair r trace)
      with env show ?thesis by (cases r) (simp_all add: market_main_def)
    qed
  next
    fix e
    assume "environ w ''MARKET_TOKEN'' = Some market_token \<and>
      environ w ''FBS_ID'' = Some campaign_fbs_id \<and>
      environ w ''DBS_ID'' = Some campaign_dbs_id \<and>
      environ w ''WAREHOUSE_FBS_ID'' = Some warehouse_fbs_id \<and>
      environ w ''WAREHOUSE_DBS_ID'' = Some warehouse_dbs_id \<and>
      feed w = Inr watch_remnants"
      and "fetched w campaign_fbs_id market_token = Inl e"
    then show "market_main w = Returned [Print (except_message e)]"
      by (simp add: market_main_def market_main_try_def market_account_def)
  qed
  have market_env: "environ w ''MARKET_TOKEN'' = None \<or> environ w ''FBS_ID'' = None \<or>
    environ w ''DBS_ID'' = None \<or> environ w ''WAREHOUSE_FBS_ID'' = None \<or>
    environ w ''WAREHOUSE_DBS_ID'' = None \<longrightarrow>
      market_main w = Propagated EnvError []"
    by (auto simp: market_main_def split: option.splits)
  have generic: "err \<noteq> ReadTimeout \<and> err \<noteq> ConnectionError \<longrightarrow>
      except_message err = GenericMessage err"
    by (simp add: except_message_generic)
  from seller seller_env market market_env generic show ?thesis by simp
qed

theorem main_catches_exceptions_of_try_block_witness:
  "seller_main (example_world\<lparr>reply := (\<lambda>n. Some ReadTimeout)\<rparr>) =
     Returned [UpdateStocks ''c'' [\<lparr>offer_id = ''1'', stock = 5\<rparr>], Print TimeoutMessage] \<and>
   seller_main (example_world\<lparr>feed := Inl ConnectionError\<rparr>) =
     Returned [Print (ConnectionMessage ConnectionError)] \<and>
   market_main (example_world\<lparr>fetched := (\<lambda>account token. Inl HTTPError)\<rparr>) =
     Returned [Print (GenericMessage HTTPError)]"
proof -
  have a: "seller_main (example_world\<lparr>reply := (\<lambda>n. Some ReadTimeout)\<rparr>) =
     Returned [UpdateStocks ''c'' [\<lparr>offer_id = ''1'', stock = 5\<rparr>], Print TimeoutMessage]"
    by (simp add: main_simps stocks_simps py_int_simps Let_def)
  have env: "environ (example_world\<lparr>feed := Inl ConnectionError\<rparr>) ''SELLER_TOKEN'' = Some ''t'' \<and>
      environ (example_world\<lparr>feed := Inl ConnectionError\<rparr>) ''CLIENT_ID'' = Some ''c''"
    by (simp add: example_world_def)
  have f: "fetched (example_world\<lparr>feed := Inl ConnectionError\<rparr>) ''c'' ''t'' = Inr [''1''] \<and>
      feed (example_world\<lparr>feed := Inl ConnectionError\<rparr>) = Inl ConnectionError"
    by (simp add: example_world_def)
  from main_catches_exceptions_of_try_block
    [of "example_world\<lparr>feed := Inl ConnectionError\<rparr>" "''t''" "''c''"] env f
  have b: "seller_main (example_world\<lparr>feed := Inl ConnectionError\<rparr>) =
     Returned [Print (ConnectionMessage ConnectionError)]"
    by (metis except_message.simps(2))
  have c: "market_main (example_world\<lparr>fetched := (\<lambda>account token. Inl HTTPError)\<rparr>) =
     Returned [Print (GenericMessage HTTPError)]"
    by (simp add: main_simps)
  from a b c show ?thesis by simp
qed

end
